theory Spec2Isabelle
  imports Main
begin

section \<open>Values, exceptions and strings\<close>

text \<open>
  The backend is Python. A \<^verbatim>\<open>str\<close> is modelled as a \<open>string\<close>, the bytes of its
  UTF-8 encoding (a \<^verbatim>\<open>str\<close> with a lone surrogate has none and is not a value of the
  model); on ASCII text the bytes are the code points. An unbounded \<^verbatim>\<open>int\<close> is an
  \<open>int\<close>. Every exception the code can raise is a value of \<open>exn\<close>; a function that can
  raise returns \<open>exn + 'a\<close>, with \<open>Inl\<close> for the exception.

  \<open>json\<close> is the type of the values a decoded JWT payload holds, and of the values a
  caller puts in the \<^verbatim>\<open>dict[str, Any]\<close> of claims (floating point numbers are left
  out). A claims dictionary is a map from keys to values.
\<close>

datatype json =
    JNull
  | JBool bool
  | JInt int
  | JStr string
  | JArr "json list"
  | JObj "(string \<times> json) list"

type_synonym claims = "string \<rightharpoonup> json"

datatype exn =
    HTTPException nat string "(string \<times> string) list"
  | IntegrityError
  | InvalidRequestError
  | UnknownHashError
  | ValueError
  | PasswordSizeError
  | PasswordValueError
  | JWSError
  | JWTError
  | ExpiredSignatureError
  | JWTClaimsError
  | TypeError
  | OverflowError
  | ValidationError

text \<open>
  \<^verbatim>\<open>len(s)\<close> counts code points: the bytes of the encoding that are not continuation
  bytes (\<open>0x80\<close> to \<open>0xBF\<close>). \<^verbatim>\<open>len(s.encode("utf-8"))\<close> is the number of bytes,
  \<open>length s\<close>. \<^verbatim>\<open>s.isascii()\<close> holds when every byte is below \<open>0x80\<close>.
\<close>

definition len_chars :: "string \<Rightarrow> nat" where
  "len_chars s =
     length (filter (\<lambda>c. \<not> ((128::nat) \<le> of_char c \<and> of_char c < (192::nat))) s)"

definition isascii :: "string \<Rightarrow> bool" where
  "isascii s = list_all (\<lambda>c. of_char c < (128::nat)) s"

text \<open>
  The ASCII part of \<^verbatim>\<open>str.lower()\<close>: \<open>A\<close> to \<open>Z\<close> are mapped to \<open>a\<close> to \<open>z\<close>,
  every other ASCII character is kept.
\<close>

definition is_upper :: "char \<Rightarrow> bool" where
  "is_upper c = ((65::nat) \<le> of_char c \<and> of_char c \<le> (90::nat))"

definition lower_char :: "char \<Rightarrow> char" where
  "lower_char c = (if is_upper c then char_of (of_char c + (32::nat)) else c)"

text \<open>
  Two ASCII strings are equal up to letter case, in the words of the spec, when they
  have the same length and at each position hold the same character or the upper and
  the lower case of one letter. This is stated without \<^verbatim>\<open>str.lower()\<close>, to measure
  the normalization of the code against.
\<close>

definition same_letter :: "char \<Rightarrow> char \<Rightarrow> bool" where
  "same_letter a b =
     (a = b \<or> (is_upper a \<and> of_char b = of_char a + (32::nat))
            \<or> (is_upper b \<and> of_char a = of_char b + (32::nat)))"

definition case_variant :: "string \<Rightarrow> string \<Rightarrow> bool" where
  "case_variant s t = list_all2 same_letter s t"

text \<open>\<^verbatim>\<open>s.startswith(p)\<close>.\<close>

definition startswith :: "string \<Rightarrow> string \<Rightarrow> bool" where
  "startswith s p = (take (length p) s = p)"

section \<open>The user store\<close>

text \<open>
  Modelled from the spec: the \<^verbatim>\<open>User\<close> model and the database session
  (\<^verbatim>\<open>app.models.user\<close>, \<^verbatim>\<open>app.database\<close>) are not among the sources. The spec
  describes the store as a collaborator with
  \<^verbatim>\<open>insert(record) -> id | UniqueViolation\<close> and
  \<^verbatim>\<open>find_by_identity(identity) -> record?\<close>, and the tests of the repository fix the
  columns (\<^verbatim>\<open>id\<close>, \<^verbatim>\<open>username\<close>, \<^verbatim>\<open>email\<close>, \<^verbatim>\<open>password_hash\<close>,
  \<^verbatim>\<open>is_active\<close> with default true) and the two uniqueness constraints, on
  \<^verbatim>\<open>username\<close> and on \<^verbatim>\<open>email\<close>. The timestamps \<^verbatim>\<open>created_at\<close> and
  \<^verbatim>\<open>updated_at\<close> are not read by any function below and are left out.

  A session holds the table (\<open>rows\<close>, in insertion order) and the objects that were
  added and not yet written (\<open>pending\<close>). Every request gets a session of its own with
  nothing pending.
\<close>

record User =
  user_id :: nat
  username :: string
  email :: string
  password_hash :: string
  is_active :: bool

type_synonym new_user = "string \<times> string \<times> string"

record Session =
  rows :: "User list"
  pending :: "new_user list"

definition next_id :: "User list \<Rightarrow> nat" where
  "next_id rs = Suc (fold max (map user_id rs) 0)"

definition violates :: "User list \<Rightarrow> new_user \<Rightarrow> bool" where
  "violates rs n =
     list_ex (\<lambda>r. username r = fst n \<or> email r = fst (snd n)) rs"

definition insert_row :: "User list \<Rightarrow> new_user \<Rightarrow> User list option" where
  "insert_row rs n =
     (if violates rs n then None
      else Some (rs @ [\<lparr>user_id = next_id rs, username = fst n, email = fst (snd n),
                        password_hash = snd (snd n), is_active = True\<rparr>]))"

fun flush :: "User list \<Rightarrow> new_user list \<Rightarrow> User list option" where
  "flush rs [] = Some rs"
| "flush rs (n # ns) =
     (case insert_row rs n of None \<Rightarrow> None | Some rs' \<Rightarrow> flush rs' ns)"

text \<open>
  \<^verbatim>\<open>db.add\<close>, \<^verbatim>\<open>db.commit\<close>, \<^verbatim>\<open>db.refresh\<close> and \<^verbatim>\<open>db.rollback\<close>. A commit
  writes the pending objects in order; a uniqueness violation aborts the whole
  transaction, so the table is unchanged, and raises \<^verbatim>\<open>IntegrityError\<close>. The objects
  stay in the session until it is rolled back.
\<close>

definition db_add :: "Session \<Rightarrow> new_user \<Rightarrow> Session" where
  "db_add db n = db\<lparr>pending := pending db @ [n]\<rparr>"

definition db_commit :: "Session \<Rightarrow> (exn + unit) \<times> Session" where
  "db_commit db =
     (case flush (rows db) (pending db) of
        None \<Rightarrow> (Inl IntegrityError, db)
      | Some rs \<Rightarrow> (Inr (), \<lparr>rows = rs, pending = []\<rparr>))"

definition db_refresh :: "Session \<Rightarrow> new_user \<Rightarrow> exn + User" where
  "db_refresh db n =
     (case find (\<lambda>r. username r = fst n \<and> email r = fst (snd n)) (rows db) of
        None \<Rightarrow> Inl InvalidRequestError
      | Some r \<Rightarrow> Inr r)"

definition db_rollback :: "Session \<Rightarrow> Session" where
  "db_rollback db = db\<lparr>pending := []\<rparr>"

section \<open>Configuration and library primitives\<close>

text \<open>
  Modelled from the spec: \<^verbatim>\<open>app.config.settings\<close> is not among the sources. The
  spec lists what the process configuration provides: the signing key, the signing
  algorithm and the token lifetime in minutes.
\<close>

record settings =
  SECRET_KEY :: string
  ALGORITHM :: string
  ACCESS_TOKEN_EXPIRE_MINUTES :: int

text \<open>
  A token string is modelled by what the JWT library reads in it: either the string
  does not split into three segments that decode (\<open>Malformed\<close>), or it carries a
  header, a payload and a signature. The payload either is a JSON object, the claims,
  or it is not.
\<close>

record jws_header =
  alg :: "string option"
  hdr_typ :: "string option"

datatype payload = NotJSONObject | Claims claims

datatype jwt = Malformed | Compact jws_header payload string

text \<open>
  The cryptography and the text-to-number conversion of the libraries are parameters
  of the model:
  \<^item> \<open>hashpw secret config\<close> is the 31 character bcrypt digest of \<open>secret\<close> under
    \<open>config\<close> (identifier, cost and salt);
  \<^item> \<open>jws_sign key algorithm message\<close> is the signature of the header and payload,
    or \<open>None\<close> when the algorithm is not supported;
  \<^item> \<open>jws_verify key algorithm message signature\<close> says whether a signature is
    valid;
  \<^item> \<open>int_of_str s\<close> is \<^verbatim>\<open>int(s)\<close> for a string, \<open>None\<close> where Python raises
    \<^verbatim>\<open>ValueError\<close>;
  \<^item> \<open>unicode_lower s\<close> is \<^verbatim>\<open>s.lower()\<close> for a string that is not ASCII: the
    case mapping of the Unicode tables, which the model does not contain.
\<close>

record prims =
  hashpw :: "string \<Rightarrow> string \<Rightarrow> string"
  jws_sign :: "string \<Rightarrow> string \<Rightarrow> jws_header \<times> payload \<Rightarrow> string option"
  jws_verify :: "string \<Rightarrow> string \<Rightarrow> jws_header \<times> payload \<Rightarrow> string \<Rightarrow> bool"
  int_of_str :: "string \<Rightarrow> int option"
  unicode_lower :: "string \<Rightarrow> string"

text \<open>
  \<^verbatim>\<open>str.lower()\<close>: on an ASCII string the mapping of the letters written out above,
  on any other string the Unicode case mapping.
\<close>

definition lower :: "prims \<Rightarrow> string \<Rightarrow> string" where
  "lower P s = (if isascii s then map lower_char s else unicode_lower P s)"

section \<open>Password hashing: \<^verbatim>\<open>CryptContext(schemes=["bcrypt"])\<close>\<close>

text \<open>
  \<^verbatim>\<open>pwd_context\<close> is passlib's \<^verbatim>\<open>CryptContext\<close> with bcrypt as its only scheme.
  The model follows passlib 1.7. A bcrypt hash is the identifier (\<^verbatim>\<open>$2b$\<close> for a new
  hash), the cost in two digits, \<^verbatim>\<open>$\<close>, 22 characters of salt and 31 characters of
  digest, all from the bcrypt base64 alphabet:
  \<^item> \<^verbatim>\<open>hash\<close> refuses a secret of more than 4096 characters, then, when it computes
    the digest, one of more than 4096 bytes (\<^verbatim>\<open>PasswordSizeError\<close>) and one with a
    NUL character (\<^verbatim>\<open>PasswordValueError\<close>); otherwise it returns the hash with the
    salt it drew and cost 12;
  \<^item> \<^verbatim>\<open>verify\<close> first identifies the scheme of the hash by its prefix and raises
    \<^verbatim>\<open>UnknownHashError\<close> when no scheme matches; then it refuses a secret of more
    than 4096 characters, parses the hash (\<^verbatim>\<open>from_string\<close>, a \<^verbatim>\<open>ValueError\<close>
    when it is malformed), and computes the digest of the secret under the parsed
    configuration, with the checks of the bytes of the secret that \<^verbatim>\<open>hash\<close> makes
    there, and compares it with the digest in the hash.
  The unused bits of the last character of a salt and of a digest are cleared when a
  hash is parsed (\<open>repair_unused\<close>).
\<close>

definition bcrypt64 :: string where
  "bcrypt64 = ''./ABCDEFGHIJKLMNOPQRSTUVWXYZabcdefghijklmnopqrstuvwxyz0123456789''"

definition ident_values :: "string list" where
  "ident_values = [''$2$'', ''$2a$'', ''$2x$'', ''$2y$'', ''$2b$'']"

definition MAX_PASSWORD_SIZE :: nat where
  "MAX_PASSWORD_SIZE = 4096"

fun index_of :: "string \<Rightarrow> char \<Rightarrow> nat" where
  "index_of [] c = 0"
| "index_of (x # xs) c = (if x = c then 0 else Suc (index_of xs c))"

definition repair_unused :: "nat \<Rightarrow> string \<Rightarrow> string" where
  "repair_unused m s =
     (if s = [] then s
      else butlast s @ [bcrypt64 ! (index_of bcrypt64 (last s) div m * m)])"

definition identify :: "string \<Rightarrow> bool" where
  "identify h = list_ex (startswith h) ident_values"

fun parse_ident :: "string list \<Rightarrow> string \<Rightarrow> (string \<times> string) option" where
  "parse_ident [] h = None"
| "parse_ident (i # is) h =
     (if startswith h i then Some (i, drop (length i) h) else parse_ident is h)"

definition is_digit :: "char \<Rightarrow> bool" where
  "is_digit c = ((48::nat) \<le> of_char c \<and> of_char c \<le> (57::nat))"

definition parse_rounds :: "string \<Rightarrow> nat option" where
  "parse_rounds s =
     (case s of
        [a, b] \<Rightarrow>
          (if is_digit a \<and> is_digit b
           then (let r = (of_char a - 48) * 10 + (of_char b - (48::nat))
                 in if 4 \<le> r \<and> r \<le> 31 then Some r else None)
           else None)
      | _ \<Rightarrow> None)"

text \<open>
  \<^verbatim>\<open>from_string\<close>: the parsed hash is the configuration string the digest is
  computed under (identifier, cost, \<^verbatim>\<open>$\<close>, salt) and the digest.
\<close>

definition from_string :: "string \<Rightarrow> (string \<times> string) option" where
  "from_string h =
     (case parse_ident ident_values h of
        None \<Rightarrow> None
      | Some (ident, tail) \<Rightarrow>
          if ident = ''$2x$'' then None
          else if count_list tail (CHR ''$'') \<noteq> 1 then None
          else
            (let rounds_str = takeWhile (\<lambda>c. c \<noteq> CHR ''$'') tail;
                 data = drop (Suc (length rounds_str)) tail;
                 salt = take 22 data;
                 chk = drop 22 data
             in if parse_rounds rounds_str = None then None
                else if length salt \<noteq> 22 \<or> \<not> set salt \<subseteq> set bcrypt64 then None
                else if length chk \<noteq> 31 \<or> \<not> set chk \<subseteq> set bcrypt64 then None
                else Some (ident @ rounds_str @ ''$'' @ repair_unused 16 salt,
                           repair_unused 4 chk)))"

definition calc_checksum :: "prims \<Rightarrow> string \<Rightarrow> string \<Rightarrow> exn + string" where
  "calc_checksum P secret config =
     (if length secret > MAX_PASSWORD_SIZE then Inl PasswordSizeError
      else if CHR 0x00 \<in> set secret then Inl PasswordValueError
      else Inr (hashpw P secret config))"

definition pwd_context_hash :: "prims \<Rightarrow> string \<Rightarrow> string \<Rightarrow> exn + string" where
  "pwd_context_hash P salt secret =
     (if len_chars secret > MAX_PASSWORD_SIZE then Inl PasswordSizeError
      else
        (let config = ''$2b$12$'' @ salt
         in case calc_checksum P secret config of
              Inl e \<Rightarrow> Inl e
            | Inr chk \<Rightarrow> Inr (config @ chk)))"

definition pwd_context_verify :: "prims \<Rightarrow> string \<Rightarrow> string \<Rightarrow> exn + bool" where
  "pwd_context_verify P secret h =
     (if \<not> identify h then Inl UnknownHashError
      else if len_chars secret > MAX_PASSWORD_SIZE then Inl PasswordSizeError
      else
        (case from_string h of
           None \<Rightarrow> Inl ValueError
         | Some (config, chk) \<Rightarrow>
             (case calc_checksum P secret config of
                Inl e \<Rightarrow> Inl e
              | Inr chk' \<Rightarrow> Inr (chk' = chk))))"

text \<open>
  The salts \<^verbatim>\<open>hash\<close> draws: 22 characters of the alphabet, the last one with its
  four unused bits clear.
\<close>

definition generated_salt :: "string \<Rightarrow> bool" where
  "generated_salt salt =
     (length salt = 22 \<and> list_all (\<lambda>c. c \<in> set bcrypt64) salt
      \<and> last salt \<in> set ''.Oeu'')"

text \<open>A bcrypt digest: 31 characters of the alphabet, the last one with its two unused bits clear.\<close>

definition bcrypt_digest :: "string \<Rightarrow> bool" where
  "bcrypt_digest d =
     (length d = 31 \<and> list_all (\<lambda>c. c \<in> set bcrypt64) d
      \<and> index_of bcrypt64 (last d) mod 4 = 0)"

subsection \<open>\<^verbatim>\<open>app/crud/user.py\<close>\<close>

definition get_password_hash :: "prims \<Rightarrow> string \<Rightarrow> string \<Rightarrow> exn + string" where
  "get_password_hash P salt password = pwd_context_hash P salt password"

definition verify_password :: "prims \<Rightarrow> string \<Rightarrow> string \<Rightarrow> exn + bool" where
  "verify_password P plain_password hashed_password =
     pwd_context_verify P plain_password hashed_password"

definition create_user ::
  "prims \<Rightarrow> string \<Rightarrow> Session \<Rightarrow> string \<Rightarrow> string \<Rightarrow> string \<Rightarrow> (exn + User) \<times> Session" where
  "create_user P salt db username' email' password =
     (case get_password_hash P salt password of
        Inl e \<Rightarrow> (Inl e, db)
      | Inr password_hash' \<Rightarrow>
          (let db_user = (username', lower P email', password_hash');
               db1 = db_add db db_user
           in case db_commit db1 of
                (Inl e, db2) \<Rightarrow> (Inl e, db2)
              | (Inr _, db2) \<Rightarrow> (db_refresh db2 db_user, db2)))"

definition get_user_by_email :: "prims \<Rightarrow> Session \<Rightarrow> string \<Rightarrow> User option" where
  "get_user_by_email P db email' = find (\<lambda>u. email u = lower P email') (rows db)"

definition get_user_by_username :: "Session \<Rightarrow> string \<Rightarrow> User option" where
  "get_user_by_username db username' = find (\<lambda>u. username u = username') (rows db)"

definition get_user_by_id :: "Session \<Rightarrow> nat \<Rightarrow> User option" where
  "get_user_by_id db uid = find (\<lambda>u. user_id u = uid) (rows db)"

section \<open>Tokens: \<^verbatim>\<open>jose.jwt\<close>\<close>

text \<open>
  Time is counted in microseconds since the epoch, the resolution of \<^verbatim>\<open>datetime\<close>;
  a \<^verbatim>\<open>timedelta\<close> is a number of microseconds. A \<^verbatim>\<open>datetime\<close> lies between
  the years 1 and 9999 and a \<^verbatim>\<open>timedelta\<close> within 999999999 days; arithmetic that
  leaves the range raises \<^verbatim>\<open>OverflowError\<close>. The JWT library counts in whole
  seconds: \<^verbatim>\<open>timegm(d.utctimetuple())\<close> drops the microseconds.
\<close>

definition datetime_min :: int where
  "datetime_min = - 62135596800000000"

definition datetime_max :: int where
  "datetime_max = 253402300799999999"

definition timedelta_min :: int where
  "timedelta_min = - 86399999913600000000"

definition timedelta_max :: int where
  "timedelta_max = 86399999999999999999"

definition timedelta_minutes :: "int \<Rightarrow> exn + int" where
  "timedelta_minutes m =
     (let d = m * 60000000
      in if d < timedelta_min \<or> timedelta_max < d then Inl OverflowError else Inr d)"

definition datetime_add :: "int \<Rightarrow> int \<Rightarrow> exn + int" where
  "datetime_add t d =
     (if t + d < datetime_min \<or> datetime_max < t + d then Inl OverflowError
      else Inr (t + d))"

definition timegm :: "int \<Rightarrow> int" where
  "timegm t = t div 1000000"

text \<open>
  \<^verbatim>\<open>jwt.encode(claims, key, algorithm)\<close> of python-jose: the header names the
  algorithm, the payload is the claims, and \<^verbatim>\<open>jws.sign\<close> raises \<^verbatim>\<open>JWSError\<close> for
  an algorithm it does not support. (The conversion of a \<^verbatim>\<open>datetime\<close> under
  \<^verbatim>\<open>exp\<close> to whole seconds, which \<^verbatim>\<open>encode\<close> does first, is written where the
  expiry is put into the claims, in \<open>create_access_token\<close>.)
\<close>

definition jwt_encode :: "prims \<Rightarrow> claims \<Rightarrow> string \<Rightarrow> string \<Rightarrow> exn + jwt" where
  "jwt_encode P c key algorithm =
     (let header = \<lparr>alg = Some algorithm, hdr_typ = Some ''JWT''\<rparr>
      in case jws_sign P key algorithm (header, Claims c) of
           None \<Rightarrow> Inl JWSError
         | Some signature \<Rightarrow> Inr (Compact header (Claims c) signature))"

text \<open>
  \<^verbatim>\<open>int(x)\<close> on a JSON value: a string that is no number raises \<^verbatim>\<open>ValueError\<close>,
  and \<^verbatim>\<open>None\<close>, a list or an object raise \<^verbatim>\<open>TypeError\<close>.
\<close>

definition py_int :: "prims \<Rightarrow> json \<Rightarrow> exn + int" where
  "py_int P v =
     (case v of
        JInt n \<Rightarrow> Inr n
      | JBool b \<Rightarrow> Inr (if b then 1 else 0)
      | JStr s \<Rightarrow> (case int_of_str P s of None \<Rightarrow> Inl ValueError | Some n \<Rightarrow> Inr n)
      | _ \<Rightarrow> Inl TypeError)"

text \<open>
  The checks of the registered claims, as \<^verbatim>\<open>jwt.decode\<close> runs them with its default
  options and no audience, issuer, subject or access token given: each returns the
  exception it raises, if any. The library catches the \<^verbatim>\<open>ValueError\<close> of \<^verbatim>\<open>int\<close>
  and raises \<^verbatim>\<open>JWTClaimsError\<close> for it; a \<^verbatim>\<open>TypeError\<close> is not caught. A token
  is expired when its \<^verbatim>\<open>exp\<close> is less than the current time in whole seconds.
\<close>

definition int_claim :: "prims \<Rightarrow> json \<Rightarrow> exn + int" where
  "int_claim P v =
     (case py_int P v of
        Inl e \<Rightarrow> Inl (if e = ValueError then JWTClaimsError else e)
      | Inr n \<Rightarrow> Inr n)"

definition validate_iat :: "prims \<Rightarrow> claims \<Rightarrow> exn option" where
  "validate_iat P c =
     (case c ''iat'' of
        None \<Rightarrow> None
      | Some v \<Rightarrow> (case int_claim P v of Inl e \<Rightarrow> Some e | Inr n \<Rightarrow> None))"

definition validate_nbf :: "prims \<Rightarrow> claims \<Rightarrow> int \<Rightarrow> exn option" where
  "validate_nbf P c now =
     (case c ''nbf'' of
        None \<Rightarrow> None
      | Some v \<Rightarrow>
          (case int_claim P v of
             Inl e \<Rightarrow> Some e
           | Inr nbf \<Rightarrow> if nbf > timegm now then Some JWTClaimsError else None))"

definition validate_exp :: "prims \<Rightarrow> claims \<Rightarrow> int \<Rightarrow> exn option" where
  "validate_exp P c now =
     (case c ''exp'' of
        None \<Rightarrow> None
      | Some v \<Rightarrow>
          (case int_claim P v of
             Inl e \<Rightarrow> Some e
           | Inr expiry \<Rightarrow>
               if expiry < timegm now then Some ExpiredSignatureError else None))"

definition validate_aud :: "claims \<Rightarrow> exn option" where
  "validate_aud c = (case c ''aud'' of None \<Rightarrow> None | Some v \<Rightarrow> Some JWTClaimsError)"

definition validate_str :: "claims \<Rightarrow> string \<Rightarrow> exn option" where
  "validate_str c k =
     (case c k of None \<Rightarrow> None | Some (JStr s) \<Rightarrow> None | Some _ \<Rightarrow> Some JWTClaimsError)"

definition validate_at_hash :: "claims \<Rightarrow> exn option" where
  "validate_at_hash c =
     (case c ''at_hash'' of None \<Rightarrow> None | Some v \<Rightarrow> Some JWTClaimsError)"

fun first_raised :: "exn option list \<Rightarrow> exn option" where
  "first_raised [] = None"
| "first_raised (None # rs) = first_raised rs"
| "first_raised (Some e # rs) = Some e"

definition validate_claims :: "prims \<Rightarrow> claims \<Rightarrow> int \<Rightarrow> exn option" where
  "validate_claims P c now =
     first_raised
       [validate_iat P c, validate_nbf P c now, validate_exp P c now, validate_aud c,
        validate_str c ''sub'', validate_str c ''jti'', validate_at_hash c]"

text \<open>
  \<^verbatim>\<open>jwt.decode(token, key, algorithms)\<close>: a token that does not load, names no
  algorithm or one that is not allowed, carries a signature that does not verify or a
  payload that is no JSON object raises \<^verbatim>\<open>JWTError\<close>; then the claims are checked.
\<close>

definition jwt_decode :: "prims \<Rightarrow> jwt \<Rightarrow> string \<Rightarrow> string list \<Rightarrow> int \<Rightarrow> exn + claims" where
  "jwt_decode P token key algorithms now =
     (case token of
        Malformed \<Rightarrow> Inl JWTError
      | Compact header body signature \<Rightarrow>
          (case alg header of
             None \<Rightarrow> Inl JWTError
           | Some a \<Rightarrow>
               if a = [] \<or> a \<notin> set algorithms then Inl JWTError
               else if \<not> jws_verify P key a (header, body) signature then Inl JWTError
               else
                 (case body of
                    NotJSONObject \<Rightarrow> Inl JWTError
                  | Claims c \<Rightarrow>
                      (case validate_claims P c now of
                         Some e \<Rightarrow> Inl e
                       | None \<Rightarrow> Inr c))))"

subsection \<open>\<^verbatim>\<open>app/utils/auth.py\<close>\<close>

text \<open>
  \<open>now\<close> is what \<^verbatim>\<open>datetime.now(timezone.utc)\<close> returns. \<^verbatim>\<open>if expires_delta:\<close>
  is false for \<^verbatim>\<open>None\<close> and for a zero \<^verbatim>\<open>timedelta\<close>.
\<close>

definition create_access_token ::
  "prims \<Rightarrow> settings \<Rightarrow> int \<Rightarrow> claims \<Rightarrow> int option \<Rightarrow> exn + jwt" where
  "create_access_token P S now data expires_delta =
     (let to_encode = data;
          delta =
            (case expires_delta of
               Some d \<Rightarrow>
                 if d \<noteq> 0 then Inr d
                 else timedelta_minutes (ACCESS_TOKEN_EXPIRE_MINUTES S)
             | None \<Rightarrow> timedelta_minutes (ACCESS_TOKEN_EXPIRE_MINUTES S))
      in case delta of
           Inl e \<Rightarrow> Inl e
         | Inr d \<Rightarrow>
             (case datetime_add now d of
                Inl e \<Rightarrow> Inl e
              | Inr expire \<Rightarrow>
                  jwt_encode P (to_encode(''exp'' \<mapsto> JInt (timegm expire)))
                    (SECRET_KEY S) (ALGORITHM S)))"

text \<open>
  \<^verbatim>\<open>except JWTError\<close> also catches its subclasses \<^verbatim>\<open>ExpiredSignatureError\<close> and
  \<^verbatim>\<open>JWTClaimsError\<close>; any other exception leaves the function.
\<close>

definition is_JWTError :: "exn \<Rightarrow> bool" where
  "is_JWTError e = (e = JWTError \<or> e = ExpiredSignatureError \<or> e = JWTClaimsError)"

definition decode_access_token ::
  "prims \<Rightarrow> settings \<Rightarrow> int \<Rightarrow> jwt \<Rightarrow> exn + claims option" where
  "decode_access_token P S now token =
     (case jwt_decode P token (SECRET_KEY S) [ALGORITHM S] now of
        Inr payload \<Rightarrow> Inr (Some payload)
      | Inl e \<Rightarrow> if is_JWTError e then Inr None else Inl e)"

subsection \<open>\<^verbatim>\<open>app/dependencies/auth.py\<close>\<close>

definition credentials_exception :: exn where
  "credentials_exception =
     HTTPException 401 ''Could not validate credentials'' [(''WWW-Authenticate'', ''Bearer'')]"

text \<open>
  \<^verbatim>\<open>payload.get("sub")\<close> is \<^verbatim>\<open>None\<close> when the key is missing and when its value
  is null. \<^verbatim>\<open>TokenData(email=email)\<close> accepts a string and raises a
  \<^verbatim>\<open>ValidationError\<close> for any other value.
\<close>

definition get_current_user ::
  "prims \<Rightarrow> settings \<Rightarrow> int \<Rightarrow> jwt \<Rightarrow> Session \<Rightarrow> exn + User" where
  "get_current_user P S now token db =
     (case decode_access_token P S now token of
        Inl e \<Rightarrow> Inl e
      | Inr None \<Rightarrow> Inl credentials_exception
      | Inr (Some payload) \<Rightarrow>
          (case payload ''sub'' of
             None \<Rightarrow> Inl credentials_exception
           | Some JNull \<Rightarrow> Inl credentials_exception
           | Some (JStr email') \<Rightarrow>
               (case get_user_by_email P db email' of
                  None \<Rightarrow> Inl credentials_exception
                | Some user \<Rightarrow> Inr user)
           | Some _ \<Rightarrow> Inl ValidationError))"

subsection \<open>\<^verbatim>\<open>app/routers/auth.py\<close>\<close>

text \<open>
  The request bodies \<^verbatim>\<open>UserCreate\<close> and \<^verbatim>\<open>UserLogin\<close> and the response
  \<^verbatim>\<open>Token\<close> of \<^verbatim>\<open>app/schemas/auth.py\<close>. The fields carry a prefix, since the
  columns of \<open>User\<close> already have the names. The handlers receive bodies that passed
  the validation of the schema.
\<close>

record UserCreate =
  new_username :: string
  new_email :: string
  new_password :: string

record UserLogin =
  login_email :: string
  login_password :: string

record Token =
  access_token :: jwt
  token_type :: string

text \<open>
  \<open>register\<close> looks for the email, then for the username, then writes. Requests run
  concurrently against one table: \<open>concurrent\<close> are the rows other requests commit
  after the two checks of this request and before its write (none when the request
  runs alone). \<^verbatim>\<open>if existing_email:\<close> is true exactly when a row was found.
\<close>

definition register ::
  "prims \<Rightarrow> string \<Rightarrow> User list \<Rightarrow> UserCreate \<Rightarrow> Session \<Rightarrow> (exn + User) \<times> Session" where
  "register P salt concurrent user_data db =
     (case get_user_by_email P db (new_email user_data) of
        Some existing_email \<Rightarrow>
          (Inl (HTTPException 409 ''Email already registered'' []), db)
      | None \<Rightarrow>
          (case get_user_by_username db (new_username user_data) of
             Some existing_username \<Rightarrow>
               (Inl (HTTPException 409 ''Username already taken'' []), db)
           | None \<Rightarrow>
               (let db' = db\<lparr>rows := rows db @ concurrent\<rparr>
                in case create_user P salt db' (new_username user_data)
                          (new_email user_data) (new_password user_data) of
                     (Inr user, db'') \<Rightarrow> (Inr user, db'')
                   | (Inl e, db'') \<Rightarrow>
                       if e = IntegrityError
                       then (Inl (HTTPException 409 ''User already exists'' []),
                             db_rollback db'')
                       else (Inl e, db''))))"

definition login ::
  "prims \<Rightarrow> settings \<Rightarrow> int \<Rightarrow> UserLogin \<Rightarrow> Session \<Rightarrow> exn + Token" where
  "login P S now user_data db =
     (case get_user_by_email P db (login_email user_data) of
        None \<Rightarrow>
          Inl (HTTPException 401 ''Incorrect email or password''
                 [(''WWW-Authenticate'', ''Bearer'')])
      | Some user \<Rightarrow>
          (case verify_password P (login_password user_data) (password_hash user) of
             Inl e \<Rightarrow> Inl e
           | Inr ok \<Rightarrow>
               if \<not> ok
               then Inl (HTTPException 401 ''Incorrect email or password''
                           [(''WWW-Authenticate'', ''Bearer'')])
               else
                 (case timedelta_minutes (ACCESS_TOKEN_EXPIRE_MINUTES S) of
                    Inl e \<Rightarrow> Inl e
                  | Inr access_token_expires \<Rightarrow>
                      (case create_access_token P S now
                              [''sub'' \<mapsto> JStr (email user)] (Some access_token_expires) of
                         Inl e \<Rightarrow> Inl e
                       | Inr t \<Rightarrow> Inr \<lparr>access_token = t, token_type = ''bearer''\<rparr>))))"

section \<open>Conditions the properties speak about\<close>

text \<open>
  The ways a token is invalid. The header names an algorithm other than the configured
  one; the signature does not verify under the configured key; the token does not load
  or its payload is no JSON object; the expiry is an integer below the current time in
  whole seconds (in a token whose \<^verbatim>\<open>iat\<close> and \<^verbatim>\<open>nbf\<close>, checked before the expiry,
  do not make \<^verbatim>\<open>int\<close> raise a \<^verbatim>\<open>TypeError\<close>).
\<close>

definition alg_not_allowed :: "settings \<Rightarrow> jwt \<Rightarrow> bool" where
  "alg_not_allowed S token =
     (case token of
        Malformed \<Rightarrow> False
      | Compact h b sg \<Rightarrow> alg h \<noteq> Some (ALGORITHM S))"

definition signature_mismatch :: "prims \<Rightarrow> settings \<Rightarrow> jwt \<Rightarrow> bool" where
  "signature_mismatch P S token =
     (case token of
        Malformed \<Rightarrow> False
      | Compact h b sg \<Rightarrow> \<not> jws_verify P (SECRET_KEY S) (ALGORITHM S) (h, b) sg)"

definition malformed :: "jwt \<Rightarrow> bool" where
  "malformed token =
     (case token of Malformed \<Rightarrow> True | Compact h b sg \<Rightarrow> b = NotJSONObject)"

definition expired :: "prims \<Rightarrow> int \<Rightarrow> jwt \<Rightarrow> bool" where
  "expired P now token =
     (case token of
        Malformed \<Rightarrow> False
      | Compact h b sg \<Rightarrow>
          (case b of
             NotJSONObject \<Rightarrow> False
           | Claims c \<Rightarrow>
               validate_iat P c \<noteq> Some TypeError
               \<and> validate_nbf P c now \<noteq> Some TypeError
               \<and> (case c ''exp'' of Some (JInt e) \<Rightarrow> e < timegm now | _ \<Rightarrow> False)))"

text \<open>
  The claims a caller may pass to \<open>create_access_token\<close> and read back: the
  registered claims other than the injected expiry pass the checks of the library.
\<close>

definition registered_claims_ok :: "prims \<Rightarrow> claims \<Rightarrow> int \<Rightarrow> bool" where
  "registered_claims_ok P data now =
     (first_raised
        [validate_iat P data, validate_nbf P data now, validate_aud data,
         validate_str data ''sub'', validate_str data ''jti'', validate_at_hash data]
      = None)"

text \<open>
  The configured key and algorithm sign every message, and what they sign verifies.
\<close>

definition signer_sound :: "prims \<Rightarrow> settings \<Rightarrow> bool" where
  "signer_sound P S =
     (ALGORITHM S \<noteq> [] \<and>
      (\<forall>m. case jws_sign P (SECRET_KEY S) (ALGORITHM S) m of
              None \<Rightarrow> False
            | Some sg \<Rightarrow> jws_verify P (SECRET_KEY S) (ALGORITHM S) m sg))"

section \<open>Example values\<close>

text \<open>
  Stand-ins for the primitives, a configuration and a salt, on which the functions can
  be evaluated: a keyed tag over the algorithm and the subject for the signature, a
  character-wise digest, and the identity for the case mapping of the strings that are
  not ASCII.
\<close>

definition example_mac :: "string \<Rightarrow> string \<Rightarrow> jws_header \<times> payload \<Rightarrow> string" where
  "example_mac key a m =
     key @ ''.'' @ a @ ''.'' @
       (case snd m of
          Claims c \<Rightarrow> (case c ''sub'' of Some (JStr s) \<Rightarrow> s | _ \<Rightarrow> [])
        | NotJSONObject \<Rightarrow> [])"

definition example_digest :: "string \<Rightarrow> string \<Rightarrow> string" where
  "example_digest secret config =
     take 30 (map (\<lambda>c. bcrypt64 ! (of_char c mod 64)) (secret @ config)
              @ replicate 30 (CHR ''.'')) @ ''.''"

definition example_prims :: prims where
  "example_prims =
     \<lparr>hashpw = example_digest,
      jws_sign = (\<lambda>key a m. if a \<in> set [''HS256'', ''HS384'', ''HS512'']
                              then Some (example_mac key a m) else None),
      jws_verify = (\<lambda>key a m sg. a \<in> set [''HS256'', ''HS384'', ''HS512'']
                                   \<and> sg = example_mac key a m),
      int_of_str = (\<lambda>s. if s \<noteq> [] \<and> list_all is_digit s
                          then Some (foldl (\<lambda>n c. 10 * n + int (of_char c - (48::nat))) 0 s)
                          else None),
      unicode_lower = (\<lambda>s. s)\<rparr>"

definition example_settings :: settings where
  "example_settings =
     \<lparr>SECRET_KEY = ''k'', ALGORITHM = ''HS256'', ACCESS_TOKEN_EXPIRE_MINUTES = 30\<rparr>"

definition example_salt :: string where
  "example_salt = ''abcdefghijklmnopqrstuu''"

definition bob :: User where
  "bob =
     \<lparr>user_id = 1, username = ''bob'', email = ''bob@x.com'',
      password_hash = ''$2b$12$abcdefghijklmnopqrstuuqtsljstzlmviwgivwifghijklmnopq.'',
      is_active = True\<rparr>"

definition alice :: User where
  "alice =
     \<lparr>user_id = 2, username = ''alice'', email = ''alice@x.com'',
      password_hash = ''$2b$12$abcdefghijklmnopqrstuuABCDEFGHIJKLMNOPQRSTUVWXYZabcd.'',
      is_active = True\<rparr>"

definition bob_token :: "int \<Rightarrow> jwt" where
  "bob_token e =
     Compact \<lparr>alg = Some ''HS256'', hdr_typ = Some ''JWT''\<rparr>
       (Claims [''sub'' \<mapsto> JStr ''bob@x.com'', ''exp'' \<mapsto> JInt e]) ''k.HS256.bob@x.com''"

definition anonymous_token :: "int \<Rightarrow> jwt" where
  "anonymous_token e =
     Compact \<lparr>alg = Some ''HS256'', hdr_typ = Some ''JWT''\<rparr>
       (Claims [''exp'' \<mapsto> JInt e]) ''k.HS256.''"

definition unsigned_token :: jwt where
  "unsigned_token =
     Compact \<lparr>alg = Some ''none'', hdr_typ = Some ''JWT''\<rparr>
       (Claims [''sub'' \<mapsto> JStr ''bob@x.com'', ''exp'' \<mapsto> JInt 1800]) []"

definition forged_token :: jwt where
  "forged_token =
     Compact \<lparr>alg = Some ''HS256'', hdr_typ = Some ''JWT''\<rparr>
       (Claims [''sub'' \<mapsto> JStr ''admin@x.com'', ''exp'' \<mapsto> JInt 1800]) ''k.HS256.bob@x.com''"

section \<open>Evaluating the examples\<close>

lemma bob_token_decodes:
  "decode_access_token example_prims example_settings 1000000 (bob_token 1800)
     = Inr (Some [''sub'' \<mapsto> JStr ''bob@x.com'', ''exp'' \<mapsto> JInt 1800])"
  by (simp add: decode_access_token_def jwt_decode_def bob_token_def example_settings_def
      example_prims_def example_mac_def validate_claims_def validate_iat_def validate_nbf_def
      validate_exp_def validate_aud_def validate_str_def validate_at_hash_def int_claim_def
      py_int_def timegm_def)

lemma anonymous_token_decodes:
  "decode_access_token example_prims example_settings 1000000 (anonymous_token 1800)
     = Inr (Some [''exp'' \<mapsto> JInt 1800])"
  by (simp add: decode_access_token_def jwt_decode_def anonymous_token_def example_settings_def
      example_prims_def example_mac_def validate_claims_def validate_iat_def validate_nbf_def
      validate_exp_def validate_aud_def validate_str_def validate_at_hash_def int_claim_def
      py_int_def timegm_def)

lemma malformed_decodes_None:
  "decode_access_token P S now Malformed = Inr None"
  by (simp add: decode_access_token_def jwt_decode_def is_JWTError_def)

lemma bob_token_decode:
  "decode_access_token example_prims example_settings now (bob_token e)
     = (if e < timegm now then Inr None
        else Inr (Some [''sub'' \<mapsto> JStr ''bob@x.com'', ''exp'' \<mapsto> JInt e]))"
  by (simp add: decode_access_token_def jwt_decode_def bob_token_def example_settings_def
      example_prims_def example_mac_def validate_claims_def validate_iat_def validate_nbf_def
      validate_exp_def validate_aud_def validate_str_def validate_at_hash_def int_claim_def
      py_int_def is_JWTError_def)

lemma bob_token_create:
  assumes "d \<noteq> 0" and "datetime_min \<le> now + d" and "now + d \<le> datetime_max"
  shows "create_access_token example_prims example_settings now
           [''sub'' \<mapsto> JStr ''bob@x.com''] (Some d)
         = Inr (bob_token (timegm (now + d)))"
  using assms
  by (simp add: create_access_token_def datetime_add_def jwt_encode_def bob_token_def
      example_settings_def example_prims_def example_mac_def Let_def)

section \<open>Registration\<close>

text \<open>
  C6. When both the email and the username of a registration collide with existing
  records, \<open>register\<close> reports the email conflict: the email is looked up first and its
  409 is returned before the username is looked at. Nothing is written.
\<close>

theorem register_reports_email_conflict_first:
  assumes "get_user_by_email P db (new_email user_data) \<noteq> None"
    and "get_user_by_username db (new_username user_data) \<noteq> None"
  shows "register P salt concurrent user_data db =
           (Inl (HTTPException 409 ''Email already registered'' []), db)"
  using assms by (auto simp: register_def)

theorem register_reports_email_conflict_first_witness:
  "get_user_by_email example_prims \<lparr>rows = [bob], pending = []\<rparr>
       (new_email \<lparr>new_username = ''bob'', new_email = ''Bob@X.com'',
                   new_password = ''different''\<rparr>) \<noteq> None
   \<and> get_user_by_username \<lparr>rows = [bob], pending = []\<rparr>
       (new_username \<lparr>new_username = ''bob'', new_email = ''Bob@X.com'',
                      new_password = ''different''\<rparr>) \<noteq> None
   \<and> register example_prims example_salt []
        \<lparr>new_username = ''bob'', new_email = ''Bob@X.com'', new_password = ''different''\<rparr>
        \<lparr>rows = [bob], pending = []\<rparr>
     = (Inl (HTTPException 409 ''Email already registered'' []),
        \<lparr>rows = [bob], pending = []\<rparr>)"
proof -
  have h1: "get_user_by_email example_prims \<lparr>rows = [bob], pending = []\<rparr>
       (new_email \<lparr>new_username = ''bob'', new_email = ''Bob@X.com'',
                   new_password = ''different''\<rparr>) \<noteq> None"
    by code_simp
  have h2: "get_user_by_username \<lparr>rows = [bob], pending = []\<rparr>
       (new_username \<lparr>new_username = ''bob'', new_email = ''Bob@X.com'',
                      new_password = ''different''\<rparr>) \<noteq> None"
    by code_simp
  show ?thesis
    using h1 h2
      register_reports_email_conflict_first [OF h1 h2, of example_salt "[]"]
    by simp
qed

text \<open>
  C9. When the write of \<open>register\<close> meets a uniqueness violation of the storage layer,
  after both checks of the request found nothing (another request committed a
  colliding row in between), \<open>register\<close> rolls the session back and answers 409: the
  table holds what it held before the write, with no record of this request, and
  nothing is left pending.
\<close>

theorem register_integrity_error_is_conflict:
  assumes "get_user_by_email P db (new_email user_data) = None"
    and "get_user_by_username db (new_username user_data) = None"
    and "fst (create_user P salt (db\<lparr>rows := rows db @ concurrent\<rparr>)
               (new_username user_data) (new_email user_data) (new_password user_data))
         = Inl IntegrityError"
  shows "register P salt concurrent user_data db =
           (Inl (HTTPException 409 ''User already exists'' []),
            \<lparr>rows = rows db @ concurrent, pending = []\<rparr>)"
  using assms
  by (auto simp: register_def create_user_def db_commit_def db_add_def db_rollback_def
      db_refresh_def Let_def
      split: sum.splits option.splits prod.splits if_splits)

theorem register_integrity_error_is_conflict_witness:
  "get_user_by_email example_prims \<lparr>rows = [], pending = []\<rparr>
       (new_email \<lparr>new_username = ''bobby'', new_email = ''Bob@X.com'',
                   new_password = ''longenough1''\<rparr>) = None
   \<and> get_user_by_username \<lparr>rows = [], pending = []\<rparr>
       (new_username \<lparr>new_username = ''bobby'', new_email = ''Bob@X.com'',
                      new_password = ''longenough1''\<rparr>) = None
   \<and> fst (create_user example_prims example_salt
             (\<lparr>rows = [], pending = []\<rparr>\<lparr>rows := rows \<lparr>rows = [], pending = []\<rparr> @ [bob]\<rparr>)
             (new_username \<lparr>new_username = ''bobby'', new_email = ''Bob@X.com'',
                            new_password = ''longenough1''\<rparr>)
             (new_email \<lparr>new_username = ''bobby'', new_email = ''Bob@X.com'',
                         new_password = ''longenough1''\<rparr>)
             (new_password \<lparr>new_username = ''bobby'', new_email = ''Bob@X.com'',
                            new_password = ''longenough1''\<rparr>))
       = Inl IntegrityError
   \<and> register example_prims example_salt [bob]
        \<lparr>new_username = ''bobby'', new_email = ''Bob@X.com'', new_password = ''longenough1''\<rparr>
        \<lparr>rows = [], pending = []\<rparr>
     = (Inl (HTTPException 409 ''User already exists'' []),
        \<lparr>rows = rows \<lparr>rows = [], pending = []\<rparr> @ [bob], pending = []\<rparr>)"
proof -
  have h1: "get_user_by_email example_prims \<lparr>rows = [], pending = []\<rparr>
       (new_email \<lparr>new_username = ''bobby'', new_email = ''Bob@X.com'',
                   new_password = ''longenough1''\<rparr>) = None"
    by (simp add: get_user_by_email_def)
  have h2: "get_user_by_username \<lparr>rows = [], pending = []\<rparr>
       (new_username \<lparr>new_username = ''bobby'', new_email = ''Bob@X.com'',
                      new_password = ''longenough1''\<rparr>) = None"
    by (simp add: get_user_by_username_def)
  have h3: "fst (create_user example_prims example_salt
             (\<lparr>rows = [], pending = []\<rparr>\<lparr>rows := rows \<lparr>rows = [], pending = []\<rparr> @ [bob]\<rparr>)
             (new_username \<lparr>new_username = ''bobby'', new_email = ''Bob@X.com'',
                            new_password = ''longenough1''\<rparr>)
             (new_email \<lparr>new_username = ''bobby'', new_email = ''Bob@X.com'',
                         new_password = ''longenough1''\<rparr>)
             (new_password \<lparr>new_username = ''bobby'', new_email = ''Bob@X.com'',
                            new_password = ''longenough1''\<rparr>))
       = Inl IntegrityError"
    by code_simp
  show ?thesis
    using h1 h2 h3 register_integrity_error_is_conflict [OF h1 h2 h3]
    by blast
qed

section \<open>The current user\<close>

text \<open>
  C8. A token that passes the verification of signature and expiry, but whose subject
  has no record in the store (the account was deleted after the token was issued), is
  answered with 401 and not with a user.
\<close>

theorem get_current_user_unknown_subject:
  assumes "decode_access_token P S now token = Inr (Some claims)"
    and "claims ''sub'' = Some (JStr subject)"
    and "get_user_by_email P db subject = None"
  shows "get_current_user P S now token db =
           Inl (HTTPException 401 ''Could not validate credentials''
                  [(''WWW-Authenticate'', ''Bearer'')])"
  using assms by (simp add: get_current_user_def credentials_exception_def)

theorem get_current_user_unknown_subject_witness:
  "decode_access_token example_prims example_settings 1000000 (bob_token 1800)
     = Inr (Some [''sub'' \<mapsto> JStr ''bob@x.com'', ''exp'' \<mapsto> JInt 1800])
   \<and> [''sub'' \<mapsto> JStr ''bob@x.com'', ''exp'' \<mapsto> JInt 1800] ''sub'' = Some (JStr ''bob@x.com'')
   \<and> get_user_by_email example_prims \<lparr>rows = [], pending = []\<rparr> ''bob@x.com'' = None
   \<and> get_current_user example_prims example_settings 1000000 (bob_token 1800)
         \<lparr>rows = [], pending = []\<rparr>
       = Inl (HTTPException 401 ''Could not validate credentials''
                [(''WWW-Authenticate'', ''Bearer'')])"
proof -
  have h2: "[''sub'' \<mapsto> JStr ''bob@x.com'', ''exp'' \<mapsto> JInt 1800] ''sub''
              = Some (JStr ''bob@x.com'')"
    by simp
  have h3: "get_user_by_email example_prims \<lparr>rows = [], pending = []\<rparr> ''bob@x.com'' = None"
    by (simp add: get_user_by_email_def)
  show ?thesis
    using bob_token_decodes h2 h3
      get_current_user_unknown_subject [OF bob_token_decodes h2 h3]
    by blast
qed

text \<open>
  C10. A token that passes the verification but whose payload has no \<^verbatim>\<open>sub\<close>, or a
  null one, is answered with 401, and with the very exception an invalid token (one
  \<open>decode_access_token\<close> answers \<^verbatim>\<open>None\<close> for) is answered with.
\<close>

theorem get_current_user_no_subject:
  assumes "decode_access_token P S now token = Inr (Some claims)"
    and "claims ''sub'' = None \<or> claims ''sub'' = Some JNull"
    and "decode_access_token P S now' token' = Inr None"
  shows "get_current_user P S now token db =
           Inl (HTTPException 401 ''Could not validate credentials''
                  [(''WWW-Authenticate'', ''Bearer'')])
         \<and> get_current_user P S now token db = get_current_user P S now' token' db'"
  using assms by (auto simp: get_current_user_def credentials_exception_def)

theorem get_current_user_no_subject_witness:
  "decode_access_token example_prims example_settings 1000000 (anonymous_token 1800)
     = Inr (Some [''exp'' \<mapsto> JInt 1800])
   \<and> ([''exp'' \<mapsto> JInt 1800] ''sub'' = None \<or> [''exp'' \<mapsto> JInt 1800] ''sub'' = Some JNull)
   \<and> decode_access_token example_prims example_settings 1000000 Malformed = Inr None
   \<and> get_current_user example_prims example_settings 1000000 (anonymous_token 1800)
         \<lparr>rows = [bob], pending = []\<rparr>
       = Inl (HTTPException 401 ''Could not validate credentials''
                [(''WWW-Authenticate'', ''Bearer'')])
   \<and> get_current_user example_prims example_settings 1000000 (anonymous_token 1800)
         \<lparr>rows = [bob], pending = []\<rparr>
       = get_current_user example_prims example_settings 1000000 Malformed
           \<lparr>rows = [bob], pending = []\<rparr>"
proof -
  have h2: "[''exp'' \<mapsto> JInt 1800] ''sub'' = None \<or> [''exp'' \<mapsto> JInt 1800] ''sub'' = Some JNull"
    by simp
  have h3: "decode_access_token example_prims example_settings 1000000 Malformed = Inr None"
    by (rule malformed_decodes_None)
  show ?thesis
    using anonymous_token_decodes h2 h3
      get_current_user_no_subject [OF anonymous_token_decodes h2 h3,
        of "\<lparr>rows = [bob], pending = []\<rparr>" "\<lparr>rows = [bob], pending = []\<rparr>"]
    by blast
qed

section \<open>Password hashing and verification\<close>

lemma len_chars_le: "len_chars s \<le> length s"
  by (simp add: len_chars_def)

lemma nth_index_of: "c \<in> set xs \<Longrightarrow> xs ! index_of xs c = c"
  by (induction xs) auto

lemma dollar_not_bcrypt64: "CHR ''$'' \<notin> set bcrypt64"
  by (simp add: bcrypt64_def)

lemma count_dollar: "set xs \<subseteq> set bcrypt64 \<Longrightarrow> count_list xs (CHR ''$'') = 0"
  using dollar_not_bcrypt64 by (auto simp: count_list_0_iff)

lemma salt_last_chars:
  "index_of bcrypt64 (CHR ''.'') = 0" "index_of bcrypt64 (CHR ''O'') = 16"
  "index_of bcrypt64 (CHR ''e'') = 32" "index_of bcrypt64 (CHR ''u'') = 48"
  by code_simp+

lemma salt_last_nth:
  "bcrypt64 ! 0 = CHR ''.''" "bcrypt64 ! 16 = CHR ''O''"
  "bcrypt64 ! 32 = CHR ''e''" "bcrypt64 ! 48 = CHR ''u''"
  by code_simp+


lemma repair_salt:
  assumes "generated_salt salt"
  shows "repair_unused 16 salt = salt"
proof -
  from assms have ne: "salt \<noteq> []" and l: "last salt \<in> set ''.Oeu''"
    by (auto simp: generated_salt_def)
  from l have "last salt = CHR ''.'' \<or> last salt = CHR ''O'' \<or> last salt = CHR ''e''
                 \<or> last salt = CHR ''u''"
    by simp
  then have "bcrypt64 ! (index_of bcrypt64 (last salt) div 16 * 16) = last salt"
    by (elim disjE) (simp_all only: salt_last_chars, simp_all add: salt_last_nth)
  with ne show ?thesis by (simp add: repair_unused_def)
qed

lemma repair_digest:
  assumes "bcrypt_digest d"
  shows "repair_unused 4 d = d"
proof -
  from assms have ne: "d \<noteq> []" and m: "index_of bcrypt64 (last d) mod 4 = 0"
    and a: "set d \<subseteq> set bcrypt64"
    by (auto simp: bcrypt_digest_def list_all_iff)
  from ne a have "last d \<in> set bcrypt64" using last_in_set by blast
  then have "bcrypt64 ! index_of bcrypt64 (last d) = last d" by (rule nth_index_of)
  moreover from m have "index_of bcrypt64 (last d) div 4 * 4 = index_of bcrypt64 (last d)"
    by presburger
  ultimately show ?thesis using ne by (simp add: repair_unused_def)
qed


lemma parse_ident_2b:
  "parse_ident ident_values (''$2b$'' @ tail) = Some (''$2b$'', tail)"
  by (simp add: ident_values_def startswith_def)

lemma identify_2b: "identify (''$2b$'' @ tail)"
  by (simp add: identify_def ident_values_def startswith_def)

lemma parse_rounds_12: "parse_rounds ''12'' = Some 12"
  by (simp add: parse_rounds_def is_digit_def)

lemma from_string_fresh:
  assumes s: "generated_salt salt" and d: "bcrypt_digest d"
  shows "from_string (''$2b$12$'' @ salt @ d) = Some (''$2b$12$'' @ salt, d)"
proof -
  from s have ls: "length salt = 22" and as: "set salt \<subseteq> set bcrypt64"
    by (auto simp: generated_salt_def list_all_iff)
  from d have ld: "length d = 31" and ad: "set d \<subseteq> set bcrypt64"
    by (auto simp: bcrypt_digest_def list_all_iff)
  have pi: "parse_ident ident_values (''$2b$12$'' @ salt @ d) = Some (''$2b$'', ''12$'' @ salt @ d)"
    using parse_ident_2b [of "''12$'' @ salt @ d"] by simp
  have cnt: "count_list (''12$'' @ salt @ d) (CHR ''$'') = 1"
    using count_dollar [OF as] count_dollar [OF ad] by simp
  have tw: "takeWhile (\<lambda>c. c \<noteq> CHR ''$'') (''12$'' @ salt @ d) = ''12''"
    by simp
  have dr: "drop (Suc (length ''12'')) (''12$'' @ salt @ d) = salt @ d"
    by simp
  have tk: "take 22 (salt @ d) = salt" "drop 22 (salt @ d) = d"
    using ls by simp_all
  show ?thesis
    unfolding from_string_def pi
    by (simp only: option.case prod.case Let_def cnt tw dr tk parse_rounds_12 ls ld as ad
        repair_salt [OF s] repair_digest [OF d], simp)
qed

lemma hash_verify_roundtrip:
  assumes s: "generated_salt salt"
    and d: "bcrypt_digest (hashpw P secret (''$2b$12$'' @ salt))"
    and h: "pwd_context_hash P salt secret = Inr h"
  shows "pwd_context_verify P secret h = Inr True"
proof -
  from h have sc: "\<not> len_chars secret > MAX_PASSWORD_SIZE"
    and sz: "\<not> length secret > MAX_PASSWORD_SIZE" and nul: "CHR 0x00 \<notin> set secret"
    and hh: "h = ''$2b$12$'' @ salt @ hashpw P secret (''$2b$12$'' @ salt)"
    by (auto simp: pwd_context_hash_def calc_checksum_def Let_def split: if_splits)
  have idf: "identify h"
    unfolding hh using identify_2b [of "''12$'' @ salt @ hashpw P secret (''$2b$12$'' @ salt)"]
    by simp
  have fs: "from_string h = Some (''$2b$12$'' @ salt, hashpw P secret (''$2b$12$'' @ salt))"
    unfolding hh by (rule from_string_fresh [OF s d])
  show ?thesis
    unfolding pwd_context_verify_def
    using idf sc sz nul fs by (simp add: calc_checksum_def)
qed


text \<open>
  C1 (as amended). For every secret of at most 4096 bytes that holds no NUL character,
  and every salt the library can draw, \<open>get_password_hash\<close> returns a hash and
  \<open>verify_password\<close> of the secret against that hash returns true. (The digest
  primitive returns a bcrypt digest.)
\<close>

theorem hash_then_verify:
  assumes "generated_salt salt"
    and "bcrypt_digest (hashpw P s (''$2b$12$'' @ salt))"
    and "length s \<le> 4096"
    and "CHR 0x00 \<notin> set s"
  shows "\<exists>h. get_password_hash P salt s = Inr h \<and> verify_password P s h = Inr True"
proof -
  from assms(3) len_chars_le [of s] have "len_chars s \<le> 4096" by simp
  with assms(3,4) obtain h where h: "pwd_context_hash P salt s = Inr h"
    by (simp add: pwd_context_hash_def calc_checksum_def MAX_PASSWORD_SIZE_def Let_def)
  from hash_verify_roundtrip [OF assms(1,2) h] h show ?thesis
    by (simp add: get_password_hash_def verify_password_def)
qed

theorem hash_then_verify_witness:
  "generated_salt example_salt
   \<and> bcrypt_digest (hashpw example_prims ''longenough1'' (''$2b$12$'' @ example_salt))
   \<and> length ''longenough1'' \<le> 4096
   \<and> CHR 0x00 \<notin> set ''longenough1''
   \<and> (\<exists>h. get_password_hash example_prims example_salt ''longenough1'' = Inr h
          \<and> verify_password example_prims ''longenough1'' h = Inr True)"
proof -
  have h1: "generated_salt example_salt" by code_simp
  have h2: "bcrypt_digest (hashpw example_prims ''longenough1'' (''$2b$12$'' @ example_salt))"
    by code_simp
  have h3: "length ''longenough1'' \<le> 4096" by simp
  have h4: "CHR 0x00 \<notin> set ''longenough1''" by simp
  show ?thesis
    using h1 h2 h3 h4 hash_then_verify [OF h1 h2 h3 h4] by blast
qed

text \<open>
  The claim as stated, for every secret string, fails: a secret with a NUL character is
  refused by the library when it is hashed, so there is no hash to verify against.
\<close>

lemma get_password_hash_NUL:
  assumes "CHR 0x00 \<in> set s" and "length s \<le> 4096"
  shows "get_password_hash P salt s = Inl PasswordValueError"
proof -
  from assms(2) len_chars_le [of s] have "len_chars s \<le> 4096" by simp
  with assms show ?thesis
    by (simp add: get_password_hash_def pwd_context_hash_def calc_checksum_def
        MAX_PASSWORD_SIZE_def)
qed

theorem hash_rejects_NUL_counterexample:
  "get_password_hash example_prims example_salt (''pass'' @ [CHR 0x00] @ ''word'')
     = Inl PasswordValueError"
  by (rule get_password_hash_NUL) simp_all

text \<open>
  C5 (as amended). For every secret and every malformed hash (one \<^verbatim>\<open>from_string\<close>
  does not parse), \<open>verify_password\<close> raises: \<^verbatim>\<open>UnknownHashError\<close> when the hash
  does not start with a bcrypt identifier, otherwise \<^verbatim>\<open>PasswordSizeError\<close> for a
  secret of more than 4096 characters and \<^verbatim>\<open>ValueError\<close> else. It never returns
  false for a malformed hash: \<open>verify_password\<close> has no handler around the library
  call.
\<close>

theorem verify_password_malformed_hash_raises:
  assumes "from_string h = None"
  shows "verify_password P s h =
           Inl (if \<not> identify h then UnknownHashError
                else if len_chars s > MAX_PASSWORD_SIZE then PasswordSizeError
                else ValueError)
         \<and> verify_password P s h \<noteq> Inr False"
  using assms by (simp add: verify_password_def pwd_context_verify_def)

lemma len_chars_two_byte:
  "len_chars (concat (replicate n [CHR 0xC3, CHR 0xA9])) = n"
  by (induction n) (simp_all add: len_chars_def)

theorem verify_password_malformed_hash_raises_witness:
  "from_string ''$2b$12$tooshort'' = None
   \<and> verify_password example_prims ''longenough1'' ''$2b$12$tooshort'' = Inl ValueError
   \<and> verify_password example_prims ''longenough1'' ''$2b$12$tooshort'' \<noteq> Inr False
   \<and> verify_password example_prims (concat (replicate 2049 [CHR 0xC3, CHR 0xA9]))
         ''$2b$12$tooshort'' = Inl ValueError
   \<and> verify_password example_prims (replicate 4097 (CHR ''a''))
         ''$2b$12$tooshort'' = Inl PasswordSizeError"
proof -
  have h1: "from_string ''$2b$12$tooshort'' = None" by code_simp
  have i: "identify ''$2b$12$tooshort''" by code_simp
  have l1: "\<not> len_chars ''longenough1'' > MAX_PASSWORD_SIZE"
    by (simp add: len_chars_def MAX_PASSWORD_SIZE_def)
  have l2: "\<not> len_chars (concat (replicate 2049 [CHR 0xC3, CHR 0xA9])) > MAX_PASSWORD_SIZE"
    by (simp only: len_chars_two_byte) (simp add: MAX_PASSWORD_SIZE_def)
  have l3: "len_chars (replicate 4097 (CHR ''a'')) > MAX_PASSWORD_SIZE"
    by (simp add: len_chars_def MAX_PASSWORD_SIZE_def)
  have r1: "verify_password example_prims ''longenough1'' ''$2b$12$tooshort'' = Inl ValueError
            \<and> verify_password example_prims ''longenough1'' ''$2b$12$tooshort'' \<noteq> Inr False"
    using i l1 verify_password_malformed_hash_raises [OF h1, of example_prims "''longenough1''"]
    by simp
  have r2: "verify_password example_prims (concat (replicate 2049 [CHR 0xC3, CHR 0xA9]))
              ''$2b$12$tooshort'' = Inl ValueError"
    using i l2 verify_password_malformed_hash_raises [OF h1, of example_prims
        "concat (replicate 2049 [CHR 0xC3, CHR 0xA9])"]
    by simp
  have r3: "verify_password example_prims (replicate 4097 (CHR ''a''))
              ''$2b$12$tooshort'' = Inl PasswordSizeError"
    using i l3 verify_password_malformed_hash_raises [OF h1, of example_prims
        "replicate 4097 (CHR ''a'')"]
    by simp
  from h1 r1 r2 r3 show ?thesis by blast
qed

text \<open>
  The claim as stated, that \<open>verify_password\<close> returns false and does not raise for a
  malformed hash, fails on a string that is no hash at all.
\<close>

theorem verify_password_raises_counterexample:
  "verify_password example_prims ''secret'' ''not-a-hash'' = Inl UnknownHashError"
  by code_simp

section \<open>Login failures\<close>

text \<open>
  When the store has no record for the identity, and when it has one and
  \<open>verify_password\<close> returns false, \<open>login\<close> fails with one and the same exception:
  status 401, the same message and the same headers.
\<close>

lemma login_unauthorized_when_not_verified:
  assumes "get_user_by_email P db1 (login_email d1) = None"
    and "get_user_by_email P db2 (login_email d2) = Some u"
    and "verify_password P (login_password d2) (password_hash u) = Inr False"
  shows "login P S now1 d1 db1 = login P S now2 d2 db2 \<and>
         login P S now2 d2 db2 =
           Inl (HTTPException 401 ''Incorrect email or password''
                  [(''WWW-Authenticate'', ''Bearer'')])"
  using assms by (simp add: login_def)

text \<open>
  When \<open>verify_password\<close> raises, \<open>login\<close> has no handler and the exception leaves
  it. The library raises for a secret with a NUL character once the stored hash is
  parsed.
\<close>

lemma login_raises_when_verification_raises:
  assumes "get_user_by_email P db (login_email d) = Some u"
    and "verify_password P (login_password d) (password_hash u) = Inl x"
  shows "login P S now d db = Inl x"
  using assms by (simp add: login_def)

lemma verify_password_NUL:
  assumes "from_string h = Some c" and "CHR 0x00 \<in> set s" and "length s \<le> 4096"
  shows "verify_password P s h = Inl PasswordValueError"
proof -
  from assms(3) len_chars_le [of s] have lc: "len_chars s \<le> 4096" by simp
  from assms(1) have "identify h"
    by (auto simp: from_string_def identify_def list_ex_iff startswith_def ident_values_def
        split: option.splits if_splits)
  with assms lc show ?thesis
    by (cases c)
      (simp add: verify_password_def pwd_context_verify_def calc_checksum_def
        MAX_PASSWORD_SIZE_def)
qed

text \<open>
  C4. The two failures of \<open>login\<close>, no record for the identity and a record whose hash
  does not verify against the supplied secret, are meant to be indistinguishable: both
  branches raise the same 401. The code does not keep this for every secret. With a
  wrong password that holds a NUL character, the request for a registered identity
  ends in the \<^verbatim>\<open>PasswordValueError\<close> of the library, uncaught, and the same request
  for an identity that is not registered ends in the 401: the caller can tell whether
  the identity is registered.
\<close>

theorem login_tells_registered_identity:
  "login example_prims example_settings 1000000
      \<lparr>login_email = ''bob@x.com'', login_password = ''wrong'' @ [CHR 0x00]\<rparr>
      \<lparr>rows = [bob], pending = []\<rparr>
     = Inl PasswordValueError
   \<and> login example_prims example_settings 1000000
      \<lparr>login_email = ''bob@x.com'', login_password = ''wrong'' @ [CHR 0x00]\<rparr>
      \<lparr>rows = [], pending = []\<rparr>
     = Inl (HTTPException 401 ''Incorrect email or password''
              [(''WWW-Authenticate'', ''Bearer'')])"
proof -
  have f: "get_user_by_email example_prims \<lparr>rows = [bob], pending = []\<rparr> ''bob@x.com''
             = Some bob"
    by code_simp
  have p: "from_string (password_hash bob)
             = Some (''$2b$12$abcdefghijklmnopqrstuu'', ''qtsljstzlmviwgivwifghijklmnopq.'')"
    by code_simp
  have v: "verify_password example_prims (''wrong'' @ [CHR 0x00]) (password_hash bob)
             = Inl PasswordValueError"
    using p by (rule verify_password_NUL) simp_all
  have a: "login example_prims example_settings 1000000
      \<lparr>login_email = ''bob@x.com'', login_password = ''wrong'' @ [CHR 0x00]\<rparr>
      \<lparr>rows = [bob], pending = []\<rparr> = Inl PasswordValueError"
    using f v
      login_raises_when_verification_raises [of example_prims
        "\<lparr>rows = [bob], pending = []\<rparr>"
        "\<lparr>login_email = ''bob@x.com'', login_password = ''wrong'' @ [CHR 0x00]\<rparr>"
        bob PasswordValueError example_settings 1000000]
    by simp
  have b: "login example_prims example_settings 1000000
      \<lparr>login_email = ''bob@x.com'', login_password = ''wrong'' @ [CHR 0x00]\<rparr>
      \<lparr>rows = [], pending = []\<rparr>
     = Inl (HTTPException 401 ''Incorrect email or password''
              [(''WWW-Authenticate'', ''Bearer'')])"
    by (simp add: login_def get_user_by_email_def)
  from a b show ?thesis by blast
qed

section \<open>Identity normalization\<close>

lemma lower_ascii: "isascii s \<Longrightarrow> lower P s = map lower_char s"
  by (simp add: lower_def)

lemma of_char_lt_256: "(of_char c :: nat) < 256"
  by (cases c) simp

lemma same_letter_iff: "same_letter a b \<longleftrightarrow> lower_char a = lower_char b"
proof
  assume "same_letter a b"
  then consider "a = b" | "is_upper a" "of_char b = of_char a + (32::nat)"
    | "is_upper b" "of_char a = of_char b + (32::nat)"
    by (auto simp: same_letter_def)
  then show "lower_char a = lower_char b"
  proof cases
    case 1
    then show ?thesis by simp
  next
    case 2
    then have "\<not> is_upper b" by (simp add: is_upper_def)
    moreover from 2 have "char_of (of_char a + (32::nat)) = b"
      by (metis char_of_char)
    ultimately show ?thesis using 2 by (simp add: lower_char_def)
  next
    case 3
    then have "\<not> is_upper a" by (simp add: is_upper_def)
    moreover from 3 have "char_of (of_char b + (32::nat)) = a"
      by (metis char_of_char)
    ultimately show ?thesis using 3 by (simp add: lower_char_def)
  qed
next
  assume eq: "lower_char a = lower_char b"
  show "same_letter a b"
  proof (cases "is_upper a")
    case ua: True
    show ?thesis
    proof (cases "is_upper b")
      case True
      with ua eq have "char_of (of_char a + (32::nat)) = char_of (of_char b + (32::nat))"
        by (simp add: lower_char_def)
      then have "(of_char (char_of (of_char a + (32::nat))) :: nat)
                 = of_char (char_of (of_char b + (32::nat)))"
        by simp
      with ua True have "(of_char a :: nat) = of_char b"
        by (simp add: is_upper_def)
      then show ?thesis by (simp add: same_letter_def)
    next
      case False
      with ua eq have "char_of (of_char a + (32::nat)) = b"
        by (simp add: lower_char_def)
      then have "(of_char b :: nat) = (of_char a + 32) mod 256" by auto
      with ua have "(of_char b :: nat) = of_char a + 32" by (simp add: is_upper_def)
      with ua show ?thesis by (simp add: same_letter_def)
    qed
  next
    case na: False
    show ?thesis
    proof (cases "is_upper b")
      case True
      with na eq have "a = char_of (of_char b + (32::nat))"
        by (simp add: lower_char_def)
      then have "(of_char a :: nat) = (of_char b + 32) mod 256" by auto
      with True have "(of_char a :: nat) = of_char b + 32" by (simp add: is_upper_def)
      with True show ?thesis by (simp add: same_letter_def)
    next
      case False
      with na eq show ?thesis by (simp add: lower_char_def same_letter_def)
    qed
  qed
qed

lemma case_variant_iff: "case_variant s t \<longleftrightarrow> map lower_char s = map lower_char t"
  unfolding case_variant_def
proof (induction s arbitrary: t)
  case Nil
  then show ?case by auto
next
  case (Cons a s)
  then show ?case by (cases t) (auto simp: same_letter_iff)
qed

lemma lower_char_not_upper: "\<not> is_upper (lower_char c)"
proof (cases "is_upper c")
  case True
  then have "(of_char (char_of (of_char c + (32::nat))) :: nat) = of_char c + 32"
    by (simp add: is_upper_def)
  with True show ?thesis by (simp add: lower_char_def is_upper_def)
next
  case False
  then show ?thesis by (simp add: lower_char_def)
qed

lemma lower_char_idem: "lower_char (lower_char c) = lower_char c"
  using lower_char_not_upper [of c] by (simp add: lower_char_def [of "lower_char c"])

lemma ascii_lower_variant:
  assumes "isascii s"
  shows "case_variant s (lower P s)" and "\<forall>c \<in> set (lower P s). \<not> is_upper c"
  using assms
  by (auto simp: lower_ascii case_variant_iff lower_char_idem lower_char_not_upper)

lemma ascii_lower_eq_iff:
  assumes "isascii s" and "isascii t"
  shows "lower P s = lower P t \<longleftrightarrow> case_variant s t"
  using assms by (simp add: lower_ascii case_variant_iff)

lemma flush_snoc:
  "flush rs (ns @ [n]) =
     (case flush rs ns of None \<Rightarrow> None | Some rs' \<Rightarrow> insert_row rs' n)"
  by (induction ns arbitrary: rs) (auto split: option.splits)

lemma find_first_match:
  assumes "\<forall>r \<in> set rs. \<not> Q r" and "Q x"
  shows "find Q (rs @ x # rest) = Some x"
  using assms by (induction rs) auto

lemma create_user_Inr:
  assumes "create_user P salt db u e p = (Inr usr, db')"
  obtains h rs0 where
    "get_password_hash P salt p = Inr h"
    "\<not> violates rs0 (u, lower P e, h)"
    "rows db' = rs0 @ [usr]"
    "usr = \<lparr>user_id = next_id rs0, username = u, email = lower P e,
            password_hash = h, is_active = True\<rparr>"
proof -
  from assms obtain h where h: "get_password_hash P salt p = Inr h"
    by (auto simp: create_user_def split: sum.splits)
  let ?n = "(u, lower P e, h)"
  from assms h obtain rs where fl: "flush (rows db) (pending db @ [?n]) = Some rs"
    and db': "db' = \<lparr>rows = rs, pending = []\<rparr>"
    and rf: "db_refresh \<lparr>rows = rs, pending = []\<rparr> ?n = Inr usr"
    by (auto simp: create_user_def db_commit_def db_add_def Let_def
        split: option.splits)
  from fl obtain rs0 where ins: "insert_row rs0 ?n = Some rs"
    by (auto simp: flush_snoc split: option.splits)
  let ?row = "\<lparr>user_id = next_id rs0, username = u, email = lower P e,
            password_hash = h, is_active = True\<rparr>"
  from ins have nv: "\<not> violates rs0 ?n" and rs: "rs = rs0 @ [?row]"
    by (auto simp: insert_row_def split: if_splits)
  from nv have "\<forall>r \<in> set rs0. \<not> (username r = u \<and> email r = lower P e)"
    by (auto simp: violates_def list_ex_iff)
  then have "find (\<lambda>r. username r = u \<and> email r = lower P e) (rs0 @ ?row # []) = Some ?row"
    by (rule find_first_match) simp
  with rf rs have "usr = ?row" by (simp add: db_refresh_def)
  with h nv rs db' that show thesis by simp
qed

lemma created_user_found:
  assumes "create_user P salt db u e p = (Inr usr, db')"
  shows "get_user_by_email P \<lparr>rows = rows db' @ later, pending = q\<rparr> e' = Some usr
           \<longleftrightarrow> lower P e' = lower P e"
proof -
  from assms obtain h rs0 where nv: "\<not> violates rs0 (u, lower P e, h)"
    and rs: "rows db' = rs0 @ [usr]"
    and usr: "usr = \<lparr>user_id = next_id rs0, username = u, email = lower P e,
            password_hash = h, is_active = True\<rparr>"
    by (rule create_user_Inr)
  from usr have em: "email usr = lower P e" by simp
  show ?thesis
  proof
    assume "get_user_by_email P \<lparr>rows = rows db' @ later, pending = q\<rparr> e' = Some usr"
    then have "email usr = lower P e'"
      by (auto simp: get_user_by_email_def find_Some_iff)
    with em show "lower P e' = lower P e" by simp
  next
    assume eq: "lower P e' = lower P e"
    from nv have "\<forall>r \<in> set rs0. \<not> (email r = lower P e)"
      by (auto simp: violates_def list_ex_iff)
    then have "find (\<lambda>r. email r = lower P e) (rs0 @ usr # later) = Some usr"
      using em by (rule find_first_match)
    with rs eq show "get_user_by_email P \<lparr>rows = rows db' @ later, pending = q\<rparr> e' = Some usr"
      by (simp add: get_user_by_email_def)
  qed
qed

text \<open>
  C7. The identity is normalized when it is written and whenever it is looked up. A
  user created with email \<open>e\<close> is stored under \<^verbatim>\<open>e.lower()\<close>, and from then on, also
  after further rows were added to the table, \<open>get_user_by_email\<close> finds that record
  for every \<open>e'\<close> with the same image under \<^verbatim>\<open>lower()\<close>. For ASCII emails this is
  measured against the spec's own notion: the stored email is the variant of \<open>e\<close>
  without upper case letters, and the lookup of \<open>e'\<close> returns the record exactly when
  \<open>e'\<close> equals \<open>e\<close> up to letter case. So a login with any case variant of the email
  and the password of the registration succeeds: it returns the bearer token issued
  for the stored identity (given a salt the library can draw, a digest primitive that
  returns bcrypt digests, and a configuration under which the token is issued).
\<close>

theorem email_normalized_on_write_and_lookup:
  assumes "create_user P salt db u e p = (Inr usr, db')"
  shows "email usr = lower P e
       \<and> (lower P e' = lower P e
            \<longrightarrow> get_user_by_email P \<lparr>rows = rows db' @ later, pending = q\<rparr> e' = Some usr)
       \<and> (isascii e
            \<longrightarrow> case_variant e (email usr) \<and> (\<forall>c \<in> set (email usr). \<not> is_upper c))
       \<and> (isascii e \<and> isascii e'
            \<longrightarrow> (get_user_by_email P \<lparr>rows = rows db' @ later, pending = q\<rparr> e' = Some usr)
                  = case_variant e e')
       \<and> (lower P e' = lower P e
          \<and> generated_salt salt
          \<and> bcrypt_digest (hashpw P p (''$2b$12$'' @ salt))
          \<and> timedelta_minutes (ACCESS_TOKEN_EXPIRE_MINUTES S) = Inr d
          \<and> create_access_token P S now [''sub'' \<mapsto> JStr (lower P e)] (Some d) = Inr t
          \<longrightarrow> login P S now \<lparr>login_email = e', login_password = p\<rparr>
                  \<lparr>rows = rows db' @ later, pending = q\<rparr>
                = Inr \<lparr>access_token = t, token_type = ''bearer''\<rparr>)"
proof -
  let ?db = "\<lparr>rows = rows db' @ later, pending = q\<rparr>"
  from assms obtain h rs0 where h: "get_password_hash P salt p = Inr h"
    and usr: "usr = \<lparr>user_id = next_id rs0, username = u, email = lower P e,
            password_hash = h, is_active = True\<rparr>"
    by (rule create_user_Inr)
  from usr have em: "email usr = lower P e" and ph: "password_hash usr = h" by simp_all
  note found = created_user_found [OF assms, of later q e']
  have c2: "lower P e' = lower P e \<longrightarrow> get_user_by_email P ?db e' = Some usr"
    using found by simp
  have c3: "isascii e
            \<longrightarrow> case_variant e (email usr) \<and> (\<forall>c \<in> set (email usr). \<not> is_upper c)"
    unfolding em using ascii_lower_variant [of e P] by blast
  have c4: "isascii e \<and> isascii e' \<longrightarrow> (get_user_by_email P ?db e' = Some usr) = case_variant e e'"
  proof
    assume a: "isascii e \<and> isascii e'"
    then have "lower P e' = lower P e \<longleftrightarrow> case_variant e' e"
      by (simp add: ascii_lower_eq_iff)
    moreover have "case_variant e' e \<longleftrightarrow> case_variant e e'"
      by (auto simp: case_variant_iff)
    ultimately show "(get_user_by_email P ?db e' = Some usr) = case_variant e e'"
      using found by simp
  qed
  have c5: "login P S now \<lparr>login_email = e', login_password = p\<rparr> ?db
          = Inr \<lparr>access_token = t, token_type = ''bearer''\<rparr>"
    if eq: "lower P e' = lower P e"
      and s: "generated_salt salt"
      and dg: "bcrypt_digest (hashpw P p (''$2b$12$'' @ salt))"
      and td: "timedelta_minutes (ACCESS_TOKEN_EXPIRE_MINUTES S) = Inr d"
      and tk: "create_access_token P S now [''sub'' \<mapsto> JStr (lower P e)] (Some d) = Inr t"
  proof -
    from h have "pwd_context_hash P salt p = Inr h" by (simp add: get_password_hash_def)
    from hash_verify_roundtrip [OF s dg this]
    have v: "verify_password P p h = Inr True" by (simp add: verify_password_def)
    from c2 eq have f: "get_user_by_email P ?db e' = Some usr" by simp
    from f v em ph td tk show ?thesis by (simp add: login_def)
  qed
  from em c2 c3 c4 c5 show ?thesis by blast
qed

lemma create_bob:
  "create_user example_prims example_salt \<lparr>rows = [], pending = []\<rparr>
      ''bob'' ''Bob@X.com'' ''longenough1''
   = (Inr bob, \<lparr>rows = [bob], pending = []\<rparr>)"
  by code_simp

theorem email_normalized_on_write_and_lookup_witness:
  "create_user example_prims example_salt \<lparr>rows = [], pending = []\<rparr>
      ''bob'' ''Bob@X.com'' ''longenough1''
     = (Inr bob, \<lparr>rows = [bob], pending = []\<rparr>)
   \<and> email bob = ''bob@x.com''
   \<and> lower example_prims ''Bob@X.com'' = ''bob@x.com''
   \<and> lower example_prims ''BOB@X.COM'' = lower example_prims ''Bob@X.com''
   \<and> get_user_by_email example_prims \<lparr>rows = [bob, alice], pending = []\<rparr> ''BOB@X.COM''
       = Some bob
   \<and> isascii ''Bob@X.com'' \<and> isascii ''BOB@X.COM'' \<and> isascii ''rob@x.com''
   \<and> case_variant ''Bob@X.com'' (email bob)
   \<and> \<not> list_ex is_upper (email bob)
   \<and> case_variant ''Bob@X.com'' ''BOB@X.COM''
   \<and> \<not> case_variant ''Bob@X.com'' ''rob@x.com''
   \<and> get_user_by_email example_prims \<lparr>rows = [bob, alice], pending = []\<rparr> ''rob@x.com''
       \<noteq> Some bob
   \<and> generated_salt example_salt
   \<and> bcrypt_digest (hashpw example_prims ''longenough1'' (''$2b$12$'' @ example_salt))
   \<and> timedelta_minutes (ACCESS_TOKEN_EXPIRE_MINUTES example_settings) = Inr 1800000000
   \<and> create_access_token example_prims example_settings 1000000
        [''sub'' \<mapsto> JStr (lower example_prims ''Bob@X.com'')] (Some 1800000000)
       = Inr (bob_token 1801)
   \<and> login example_prims example_settings 1000000
        \<lparr>login_email = ''BOB@X.COM'', login_password = ''longenough1''\<rparr>
        \<lparr>rows = [bob, alice], pending = []\<rparr>
       = Inr \<lparr>access_token = bob_token 1801, token_type = ''bearer''\<rparr>"
proof -
  have lw: "lower example_prims ''Bob@X.com'' = ''bob@x.com''" by code_simp
  have lv: "lower example_prims ''BOB@X.COM'' = lower example_prims ''Bob@X.com''"
    by code_simp
  have a1: "isascii ''Bob@X.com''" and a2: "isascii ''BOB@X.COM''"
    and a3: "isascii ''rob@x.com''"
    by code_simp+
  have nv: "\<not> case_variant ''Bob@X.com'' ''rob@x.com''" by code_simp
  have h3: "generated_salt example_salt" by code_simp
  have h4: "bcrypt_digest (hashpw example_prims ''longenough1'' (''$2b$12$'' @ example_salt))"
    by code_simp
  have h5: "timedelta_minutes (ACCESS_TOKEN_EXPIRE_MINUTES example_settings) = Inr 1800000000"
    by (simp add: timedelta_minutes_def example_settings_def timedelta_min_def
        timedelta_max_def)
  have h6: "create_access_token example_prims example_settings 1000000
        [''sub'' \<mapsto> JStr (lower example_prims ''Bob@X.com'')] (Some 1800000000)
       = Inr (bob_token 1801)"
    unfolding lw
    using bob_token_create [of 1800000000 1000000]
    by (simp add: datetime_min_def datetime_max_def timegm_def)
  have rw: "rows \<lparr>rows = [bob], pending = []\<rparr> @ [alice] = [bob, alice]" by simp
  note T1 = email_normalized_on_write_and_lookup [OF create_bob,
      where e' = "''BOB@X.COM''" and later = "[alice]" and q = "[]"
        and S = example_settings and d = 1800000000 and now = 1000000
        and t = "bob_token 1801", unfolded rw]
  note T2 = email_normalized_on_write_and_lookup [OF create_bob,
      where e' = "''rob@x.com''" and later = "[alice]" and q = "[]"
        and S = example_settings and d = 1800000000 and now = 1000000
        and t = "bob_token 1801", unfolded rw]
  from T1 lw have c1: "email bob = ''bob@x.com''" by simp
  from T1 lv have c2: "get_user_by_email example_prims \<lparr>rows = [bob, alice], pending = []\<rparr>
        ''BOB@X.COM'' = Some bob"
    by blast
  from T1 a1 have c3: "case_variant ''Bob@X.com'' (email bob)"
    and c3': "\<not> list_ex is_upper (email bob)"
    by (auto simp: list_ex_iff)
  from T1 a1 a2 c2 have c4: "case_variant ''Bob@X.com'' ''BOB@X.COM''" by blast
  from T2 a1 a3 nv have c5: "get_user_by_email example_prims
        \<lparr>rows = [bob, alice], pending = []\<rparr> ''rob@x.com'' \<noteq> Some bob"
    by blast
  from T1 lv h3 h4 h5 h6 have c6: "login example_prims example_settings 1000000
        \<lparr>login_email = ''BOB@X.COM'', login_password = ''longenough1''\<rparr>
        \<lparr>rows = [bob, alice], pending = []\<rparr>
       = Inr \<lparr>access_token = bob_token 1801, token_type = ''bearer''\<rparr>"
    by blast
  from create_bob c1 lw lv c2 a1 a2 a3 c3 c3' c4 nv c5 h3 h4 h5 h6 c6
  show ?thesis by blast
qed

section \<open>Issuing and decoding tokens\<close>

lemma first_raised_None: "first_raised xs = None \<longleftrightarrow> (\<forall>x \<in> set xs. x = None)"
  by (induction xs rule: first_raised.induct) auto

lemma timegm_mono: "a \<le> b \<Longrightarrow> timegm a \<le> timegm b"
  by (simp add: timegm_def zdiv_mono1)

lemma signer_soundD:
  assumes "signer_sound P S"
  obtains sg where "jws_sign P (SECRET_KEY S) (ALGORITHM S) m = Some sg"
    and "jws_verify P (SECRET_KEY S) (ALGORITHM S) m sg"
proof (cases "jws_sign P (SECRET_KEY S) (ALGORITHM S) m")
  case None
  from assms have "case jws_sign P (SECRET_KEY S) (ALGORITHM S) m of
                     None \<Rightarrow> False
                   | Some sg \<Rightarrow> jws_verify P (SECRET_KEY S) (ALGORITHM S) m sg"
    unfolding signer_sound_def by blast
  with None show ?thesis by simp
next
  case (Some sg)
  from assms have "case jws_sign P (SECRET_KEY S) (ALGORITHM S) m of
                     None \<Rightarrow> False
                   | Some sg \<Rightarrow> jws_verify P (SECRET_KEY S) (ALGORITHM S) m sg"
    unfolding signer_sound_def by blast
  with Some have "jws_verify P (SECRET_KEY S) (ALGORITHM S) m sg" by simp
  with Some that show ?thesis by blast
qed


lemma validate_other_upd:
  "validate_iat P (data(''exp'' \<mapsto> v)) = validate_iat P data"
  "validate_nbf P (data(''exp'' \<mapsto> v)) now = validate_nbf P data now"
  "validate_aud (data(''exp'' \<mapsto> v)) = validate_aud data"
  "validate_str (data(''exp'' \<mapsto> v)) ''sub'' = validate_str data ''sub''"
  "validate_str (data(''exp'' \<mapsto> v)) ''jti'' = validate_str data ''jti''"
  "validate_at_hash (data(''exp'' \<mapsto> v)) = validate_at_hash data"
  by (simp_all add: validate_iat_def validate_nbf_def validate_aud_def validate_str_def
      validate_at_hash_def)

lemma validate_exp_upd:
  "validate_exp P (data(''exp'' \<mapsto> JInt e)) now
     = (if e < timegm now then Some ExpiredSignatureError else None)"
  by (simp add: validate_exp_def int_claim_def py_int_def)

lemma validate_claims_fresh:
  assumes "registered_claims_ok P data now'" and "timegm now' \<le> e"
  shows "validate_claims P (data(''exp'' \<mapsto> JInt e)) now' = None"
proof -
  from assms(1) have
    "validate_iat P data = None" "validate_nbf P data now' = None" "validate_aud data = None"
    "validate_str data ''sub'' = None" "validate_str data ''jti'' = None"
    "validate_at_hash data = None"
    by (simp_all add: registered_claims_ok_def first_raised_None)
  with assms(2) show ?thesis
    by (simp add: validate_claims_def validate_other_upd validate_exp_upd)
qed


lemma create_access_token_Some:
  assumes "ttl \<noteq> 0" and "datetime_min \<le> now + ttl" and "now + ttl \<le> datetime_max"
    and "jws_sign P (SECRET_KEY S) (ALGORITHM S)
           (\<lparr>alg = Some (ALGORITHM S), hdr_typ = Some ''JWT''\<rparr>,
            Claims (data(''exp'' \<mapsto> JInt (timegm (now + ttl))))) = Some sg"
  shows "create_access_token P S now data (Some ttl)
         = Inr (Compact \<lparr>alg = Some (ALGORITHM S), hdr_typ = Some ''JWT''\<rparr>
                  (Claims (data(''exp'' \<mapsto> JInt (timegm (now + ttl))))) sg)"
proof -
  from assms(2,3) have add: "datetime_add now ttl = Inr (now + ttl)"
    by (simp add: datetime_add_def)
  show ?thesis
    unfolding create_access_token_def Let_def jwt_encode_def
    by (simp only: option.case assms(1) if_True add sum.case assms(4) simp_thms)
qed

lemma decode_valid:
  assumes "ALGORITHM S \<noteq> []"
    and "jws_verify P (SECRET_KEY S) (ALGORITHM S) (h, Claims c) sg"
    and "alg h = Some (ALGORITHM S)"
    and "validate_claims P c now = None"
  shows "decode_access_token P S now (Compact h (Claims c) sg) = Inr (Some c)"
  using assms by (simp add: decode_access_token_def jwt_decode_def)

text \<open>
  C2 (as amended). For every claims dictionary whose registered claims pass the checks
  of the library (\<^verbatim>\<open>sub\<close> and \<^verbatim>\<open>jti\<close>, when present, are strings; \<^verbatim>\<open>iat\<close> and
  \<^verbatim>\<open>nbf\<close>, when present, are integers and \<^verbatim>\<open>nbf\<close> is not in the future; there is
  no \<^verbatim>\<open>aud\<close> and no \<^verbatim>\<open>at_hash\<close>), and every positive lifetime that keeps the
  expiry a \<^verbatim>\<open>datetime\<close>, a token is issued, and decoding it at once, or at any time up
  to the expiry, returns the claims passed in with \<^verbatim>\<open>exp\<close> set to the expiry in whole
  seconds. In particular the subject returned is the subject passed in. (The configured
  key and algorithm sign and verify.)
\<close>

theorem issue_then_decode_round_trip:
  assumes ttl: "0 < ttl"
    and range: "datetime_min \<le> now" "now + ttl \<le> datetime_max"
    and signer: "signer_sound P S"
    and data: "registered_claims_ok P data now'"
    and time: "now \<le> now'" "now' \<le> now + ttl"
  shows "\<exists>token.
           create_access_token P S now data (Some ttl) = Inr token
         \<and> decode_access_token P S now' token
             = Inr (Some (data(''exp'' \<mapsto> JInt (timegm (now + ttl)))))
         \<and> (data(''exp'' \<mapsto> JInt (timegm (now + ttl)))) ''sub'' = data ''sub''"
proof -
  let ?c = "data(''exp'' \<mapsto> JInt (timegm (now + ttl)))"
  let ?h = "\<lparr>alg = Some (ALGORITHM S), hdr_typ = Some ''JWT''\<rparr>"
  from signer have ne: "ALGORITHM S \<noteq> []" by (simp add: signer_sound_def)
  from signer obtain sg
    where sg: "jws_sign P (SECRET_KEY S) (ALGORITHM S) (?h, Claims ?c) = Some sg"
      and ok: "jws_verify P (SECRET_KEY S) (ALGORITHM S) (?h, Claims ?c) sg"
    by (rule signer_soundD)
  from ttl have nz: "ttl \<noteq> 0" by simp
  from ttl range(1) have lo: "datetime_min \<le> now + ttl" by simp
  have cr: "create_access_token P S now data (Some ttl) = Inr (Compact ?h (Claims ?c) sg)"
    using nz lo range(2) sg by (rule create_access_token_Some)
  from time(2) have "timegm now' \<le> timegm (now + ttl)" by (rule timegm_mono)
  with data have vc: "validate_claims P ?c now' = None" by (rule validate_claims_fresh)
  have al: "alg ?h = Some (ALGORITHM S)" by simp
  have dc: "decode_access_token P S now' (Compact ?h (Claims ?c) sg) = Inr (Some ?c)"
    using ne ok al vc by (rule decode_valid)
  have sub: "?c ''sub'' = data ''sub''" by simp
  from cr dc sub show ?thesis by blast
qed


lemma example_signer_sound: "signer_sound example_prims example_settings"
  by (simp add: signer_sound_def example_prims_def example_settings_def)

theorem issue_then_decode_round_trip_witness:
  "(0::int) < 60000000
   \<and> datetime_min \<le> 1000000
   \<and> 1000000 + 60000000 \<le> datetime_max
   \<and> signer_sound example_prims example_settings
   \<and> registered_claims_ok example_prims
        [''sub'' \<mapsto> JStr ''bob@x.com'', ''role'' \<mapsto> JStr ''admin''] 1000000
   \<and> (1000000::int) \<le> 1000000
   \<and> (1000000::int) \<le> 1000000 + 60000000
   \<and> (\<exists>token.
         create_access_token example_prims example_settings 1000000
           [''sub'' \<mapsto> JStr ''bob@x.com'', ''role'' \<mapsto> JStr ''admin''] (Some 60000000)
           = Inr token
       \<and> decode_access_token example_prims example_settings 1000000 token
           = Inr (Some ([''sub'' \<mapsto> JStr ''bob@x.com'', ''role'' \<mapsto> JStr ''admin'']
                         (''exp'' \<mapsto> JInt (timegm (1000000 + 60000000)))))
       \<and> ([''sub'' \<mapsto> JStr ''bob@x.com'', ''role'' \<mapsto> JStr ''admin'']
             (''exp'' \<mapsto> JInt (timegm (1000000 + 60000000)))) ''sub''
           = [''sub'' \<mapsto> JStr ''bob@x.com'', ''role'' \<mapsto> JStr ''admin''] ''sub'')"
proof -
  have h1: "(0::int) < 60000000" by simp
  have h2: "datetime_min \<le> 1000000" by (simp add: datetime_min_def)
  have h3: "1000000 + 60000000 \<le> datetime_max" by (simp add: datetime_max_def)
  have h5: "registered_claims_ok example_prims
        [''sub'' \<mapsto> JStr ''bob@x.com'', ''role'' \<mapsto> JStr ''admin''] 1000000"
    by (simp add: registered_claims_ok_def validate_iat_def validate_nbf_def validate_aud_def
        validate_str_def validate_at_hash_def)
  have h6: "(1000000::int) \<le> 1000000" by simp
  have h7: "(1000000::int) \<le> 1000000 + 60000000" by simp
  show ?thesis
    using h1 h2 h3 example_signer_sound h5 h6 h7
      issue_then_decode_round_trip [OF h1 h2 h3 example_signer_sound h5 h6 h7]
    by blast
qed

text \<open>
  The claim as stated, for every claims dictionary, fails: with a subject that is not a
  string the token is issued, and decoding it returns \<^verbatim>\<open>None\<close>, since the library
  rejects the subject.
\<close>

theorem numeric_subject_counterexample:
  "create_access_token example_prims example_settings 1000000
       [''sub'' \<mapsto> JInt 5] (Some 60000000)
     = Inr (Compact \<lparr>alg = Some ''HS256'', hdr_typ = Some ''JWT''\<rparr>
              (Claims [''sub'' \<mapsto> JInt 5, ''exp'' \<mapsto> JInt 61]) ''k.HS256.'')
   \<and> decode_access_token example_prims example_settings 1000000
       (Compact \<lparr>alg = Some ''HS256'', hdr_typ = Some ''JWT''\<rparr>
          (Claims [''sub'' \<mapsto> JInt 5, ''exp'' \<mapsto> JInt 61]) ''k.HS256.'')
     = Inr None"
proof -
  have a: "create_access_token example_prims example_settings 1000000
       [''sub'' \<mapsto> JInt 5] (Some 60000000)
     = Inr (Compact \<lparr>alg = Some ''HS256'', hdr_typ = Some ''JWT''\<rparr>
              (Claims [''sub'' \<mapsto> JInt 5, ''exp'' \<mapsto> JInt 61]) ''k.HS256.'')"
    by (simp add: create_access_token_def datetime_add_def jwt_encode_def
      example_settings_def example_prims_def example_mac_def Let_def datetime_min_def
      datetime_max_def timegm_def)
  have b: "decode_access_token example_prims example_settings 1000000
       (Compact \<lparr>alg = Some ''HS256'', hdr_typ = Some ''JWT''\<rparr>
          (Claims [''sub'' \<mapsto> JInt 5, ''exp'' \<mapsto> JInt 61]) ''k.HS256.'')
     = Inr None"
    by (simp add: decode_access_token_def jwt_decode_def example_settings_def
      example_prims_def example_mac_def validate_claims_def validate_iat_def validate_nbf_def
      validate_exp_def validate_aud_def validate_str_def validate_at_hash_def int_claim_def
      py_int_def is_JWTError_def timegm_def)
  from a b show ?thesis by blast
qed

section \<open>Rejecting tokens\<close>

lemma int_claim_Inl: "int_claim P v = Inl e \<Longrightarrow> e = JWTClaimsError \<or> e = TypeError"
  by (auto simp: int_claim_def py_int_def split: json.splits option.splits sum.splits if_splits)

lemma validate_iat_cases:
  "validate_iat P c = None \<or> validate_iat P c = Some JWTClaimsError
     \<or> validate_iat P c = Some TypeError"
  by (auto simp: validate_iat_def split: option.splits sum.splits dest: int_claim_Inl)

lemma validate_nbf_cases:
  "validate_nbf P c now = None \<or> validate_nbf P c now = Some JWTClaimsError
     \<or> validate_nbf P c now = Some TypeError"
  by (auto simp: validate_nbf_def split: option.splits sum.splits dest: int_claim_Inl)

lemma expired_claims_rejected:
  assumes "validate_iat P c \<noteq> Some TypeError" and "validate_nbf P c now \<noteq> Some TypeError"
    and "c ''exp'' = Some (JInt e)" and "e < timegm now"
  shows "\<exists>x. validate_claims P c now = Some x \<and> is_JWTError x"
proof -
  from assms(3,4) have ex: "validate_exp P c now = Some ExpiredSignatureError"
    by (simp add: validate_exp_def int_claim_def py_int_def)
  from assms(1) validate_iat_cases [of P c]
  have i: "validate_iat P c = None \<or> validate_iat P c = Some JWTClaimsError" by blast
  from assms(2) validate_nbf_cases [of P c now]
  have n: "validate_nbf P c now = None \<or> validate_nbf P c now = Some JWTClaimsError" by blast
  from i n ex show ?thesis
    by (auto simp: validate_claims_def is_JWTError_def)
qed

lemma decode_malformed:
  assumes "malformed token"
  shows "decode_access_token P S now token = Inr None"
  using assms
  by (auto simp: malformed_def decode_access_token_def jwt_decode_def is_JWTError_def
      split: jwt.splits option.splits)

lemma decode_alg_not_allowed:
  assumes "alg_not_allowed S token"
  shows "decode_access_token P S now token = Inr None"
  using assms
  by (auto simp: alg_not_allowed_def decode_access_token_def jwt_decode_def is_JWTError_def
      split: jwt.splits option.splits)

lemma decode_signature_mismatch:
  assumes "signature_mismatch P S token"
  shows "decode_access_token P S now token = Inr None"
  using assms
  by (auto simp: signature_mismatch_def decode_access_token_def jwt_decode_def is_JWTError_def
      split: jwt.splits option.splits)


lemma decode_expired:
  assumes "expired P now token"
  shows "decode_access_token P S now token = Inr None"
proof -
  from assms obtain h c sg e where tk: "token = Compact h (Claims c) sg"
    and i: "validate_iat P c \<noteq> Some TypeError"
    and n: "validate_nbf P c now \<noteq> Some TypeError"
    and ex: "c ''exp'' = Some (JInt e)" and lt: "e < timegm now"
    by (auto simp: expired_def split: jwt.splits payload.splits option.splits json.splits)
  from expired_claims_rejected [OF i n ex lt]
  obtain x where x: "validate_claims P c now = Some x" and j: "is_JWTError x" by blast
  show ?thesis
    unfolding tk decode_access_token_def jwt_decode_def
    using x j by (auto simp: is_JWTError_def split: option.splits)
qed

lemma create_access_token_Inr:
  assumes "create_access_token P S now0 data (Some ttl) = Inr token" and "ttl \<noteq> 0"
  shows "\<exists>h sg. token = Compact h (Claims (data(''exp'' \<mapsto> JInt (timegm (now0 + ttl))))) sg"
  using assms
  by (auto simp: create_access_token_def datetime_add_def jwt_encode_def Let_def
      split: if_splits option.splits sum.splits)

lemma timegm_second_earlier:
  assumes "ttl \<le> - 1000000" and "now0 \<le> now"
  shows "timegm (now0 + ttl) < timegm now"
proof -
  from assms have "now0 + ttl \<le> now - 1000000" by simp
  then have "(now0 + ttl) div 1000000 \<le> (now - 1000000) div 1000000"
    by (rule zdiv_mono1) simp
  also have "(now - 1000000) div 1000000 = now div 1000000 - 1"
    by simp
  finally show ?thesis by (simp add: timegm_def)
qed

lemma issued_in_the_past_expired:
  assumes cr: "create_access_token P S now0 data (Some ttl) = Inr token"
    and ttl: "ttl \<le> - 1000000" and le: "now0 \<le> now"
    and i: "validate_iat P data \<noteq> Some TypeError"
    and n: "validate_nbf P data now \<noteq> Some TypeError"
  shows "expired P now token"
proof -
  from ttl have "ttl \<noteq> 0" by simp
  from create_access_token_Inr [OF cr this] obtain h sg
    where tk: "token = Compact h (Claims (data(''exp'' \<mapsto> JInt (timegm (now0 + ttl))))) sg"
    by blast
  have i': "validate_iat P (data(''exp'' \<mapsto> JInt (timegm (now0 + ttl)))) \<noteq> Some TypeError"
    using i by (simp add: validate_other_upd)
  have n': "validate_nbf P (data(''exp'' \<mapsto> JInt (timegm (now0 + ttl)))) now
              \<noteq> Some TypeError"
    using n by (simp add: validate_other_upd)
  from timegm_second_earlier [OF ttl le] i' n' show ?thesis
    unfolding tk expired_def by simp
qed

text \<open>
  C3 (as amended). \<open>decode_access_token\<close> returns \<^verbatim>\<open>None\<close>, and raises nothing, for
  every token that does not load or whose payload is no JSON object, that names an
  algorithm other than the configured one, whose signature does not verify, or whose
  expiry is an integer below the time of the verification counted in whole seconds
  (the \<^verbatim>\<open>iat\<close> and \<^verbatim>\<open>nbf\<close> of the token not making \<^verbatim>\<open>int\<close> raise a
  \<^verbatim>\<open>TypeError\<close>). This holds of every token issued with a lifetime of minus one
  second or less, at the time of issue and at any later time.
\<close>

theorem invalid_token_decodes_to_None:
  assumes "malformed token
         \<or> alg_not_allowed S token
         \<or> signature_mismatch P S token
         \<or> expired P now token
         \<or> (\<exists>now0 data ttl.
               create_access_token P S now0 data (Some ttl) = Inr token
             \<and> ttl \<le> - 1000000 \<and> now0 \<le> now
             \<and> validate_iat P data \<noteq> Some TypeError
             \<and> validate_nbf P data now \<noteq> Some TypeError)"
  shows "decode_access_token P S now token = Inr None"
  using assms
proof (elim disjE exE conjE)
  assume "malformed token"
  then show ?thesis by (rule decode_malformed)
next
  assume "alg_not_allowed S token"
  then show ?thesis by (rule decode_alg_not_allowed)
next
  assume "signature_mismatch P S token"
  then show ?thesis by (rule decode_signature_mismatch)
next
  assume "expired P now token"
  then show ?thesis by (rule decode_expired)
next
  fix now0 data ttl
  assume "create_access_token P S now0 data (Some ttl) = Inr token"
    and "ttl \<le> - 1000000" and "now0 \<le> now"
    and "validate_iat P data \<noteq> Some TypeError"
    and "validate_nbf P data now \<noteq> Some TypeError"
  then have "expired P now token" by (rule issued_in_the_past_expired)
  then show ?thesis by (rule decode_expired)
qed


theorem invalid_token_decodes_to_None_witness:
  "malformed Malformed
   \<and> decode_access_token example_prims example_settings 1000000 Malformed = Inr None
   \<and> alg_not_allowed example_settings unsigned_token
   \<and> decode_access_token example_prims example_settings 1000000 unsigned_token = Inr None
   \<and> signature_mismatch example_prims example_settings forged_token
   \<and> decode_access_token example_prims example_settings 1000000 forged_token = Inr None
   \<and> expired example_prims 100500000 (bob_token 99)
   \<and> decode_access_token example_prims example_settings 100500000 (bob_token 99) = Inr None
   \<and> create_access_token example_prims example_settings 100500000
        [''sub'' \<mapsto> JStr ''bob@x.com''] (Some (- 1000000)) = Inr (bob_token 99)
   \<and> (- 1000000 :: int) \<le> - 1000000 \<and> (100500000 :: int) \<le> 100900000
   \<and> validate_iat example_prims [''sub'' \<mapsto> JStr ''bob@x.com''] \<noteq> Some TypeError
   \<and> validate_nbf example_prims [''sub'' \<mapsto> JStr ''bob@x.com''] 100900000 \<noteq> Some TypeError
   \<and> decode_access_token example_prims example_settings 100900000 (bob_token 99) = Inr None"
proof -
  have m: "malformed Malformed" by (simp add: malformed_def)
  have a: "alg_not_allowed example_settings unsigned_token"
    by (simp add: alg_not_allowed_def unsigned_token_def example_settings_def)
  have s: "signature_mismatch example_prims example_settings forged_token"
    by (simp add: signature_mismatch_def forged_token_def example_settings_def
        example_prims_def example_mac_def)
  have e: "expired example_prims 100500000 (bob_token 99)"
    by (simp add: expired_def bob_token_def validate_iat_def validate_nbf_def timegm_def)
  have c: "create_access_token example_prims example_settings 100500000
        [''sub'' \<mapsto> JStr ''bob@x.com''] (Some (- 1000000)) = Inr (bob_token 99)"
    using bob_token_create [of "- 1000000" 100500000]
    by (simp add: datetime_min_def datetime_max_def timegm_def)
  have t: "(- 1000000 :: int) \<le> - 1000000" "(100500000 :: int) \<le> 100900000" by simp_all
  have i: "validate_iat example_prims [''sub'' \<mapsto> JStr ''bob@x.com''] \<noteq> Some TypeError"
    by (simp add: validate_iat_def)
  have n: "validate_nbf example_prims [''sub'' \<mapsto> JStr ''bob@x.com''] 100900000
             \<noteq> Some TypeError"
    by (simp add: validate_nbf_def)
  have r1: "decode_access_token example_prims example_settings 1000000 Malformed = Inr None"
    by (rule invalid_token_decodes_to_None) (simp add: m)
  have r2: "decode_access_token example_prims example_settings 1000000 unsigned_token = Inr None"
    by (rule invalid_token_decodes_to_None) (simp add: a)
  have r3: "decode_access_token example_prims example_settings 1000000 forged_token = Inr None"
    by (rule invalid_token_decodes_to_None) (simp add: s)
  have r4: "decode_access_token example_prims example_settings 100500000 (bob_token 99) = Inr None"
    by (rule invalid_token_decodes_to_None) (simp add: e)
  have r5: "decode_access_token example_prims example_settings 100900000 (bob_token 99) = Inr None"
    using c t i n by (intro invalid_token_decodes_to_None disjI2) blast
  from m a s e c t i n r1 r2 r3 r4 r5 show ?thesis by blast
qed

text \<open>
  The claim as stated, for an expiry at or before the time of the verification and
  for any negative lifetime, fails: the library compares whole seconds and rejects only
  an expiry below the current second. A token issued at 100.5 s with a lifetime of
  -0.2 s expires at 100.3 s, is stamped 100, and is still accepted at 100.5 s.
\<close>

theorem expiry_in_current_second_counterexample:
  "create_access_token example_prims example_settings 100500000
       [''sub'' \<mapsto> JStr ''bob@x.com''] (Some (- 200000)) = Inr (bob_token 100)
   \<and> decode_access_token example_prims example_settings 100500000 (bob_token 100)
       = Inr (Some [''sub'' \<mapsto> JStr ''bob@x.com'', ''exp'' \<mapsto> JInt 100])"
proof -
  have c: "create_access_token example_prims example_settings 100500000
       [''sub'' \<mapsto> JStr ''bob@x.com''] (Some (- 200000)) = Inr (bob_token 100)"
    using bob_token_create [of "- 200000" 100500000]
    by (simp add: datetime_min_def datetime_max_def timegm_def)
  have d: "decode_access_token example_prims example_settings 100500000 (bob_token 100)
       = Inr (Some [''sub'' \<mapsto> JStr ''bob@x.com'', ''exp'' \<mapsto> JInt 100])"
    by (simp add: bob_token_decode timegm_def)
  from c d show ?thesis by blast
qed

end
